theory Spec2Isabelle
  imports Main
begin

section \<open>The course-management views of \<^verbatim>\<open>courses/views.py\<close>\<close>

text \<open>
  The views are thin controllers over an object-relational mapper. The store is a record
  of tables (one list of rows per model), a view is a function from the store and the
  request to a response or an uncaught exception, together with the store it leaves.
  What the web framework does on behalf of a view (the access mixins, the generic
  list/create/update/delete views, \<^verbatim>\<open>get_object_or_404\<close>) is written out once
  and instantiated by each view class with the bases and attributes the source gives it.
\<close>

subsection \<open>Rows and tables\<close>

text \<open>\<^verbatim>\<open>request.user\<close>: a logged-in user with its primary key, or the anonymous user.\<close>

datatype user = AnonymousUser | User nat

fun is_authenticated :: "user \<Rightarrow> bool" where
  "is_authenticated AnonymousUser = False"
| "is_authenticated (User a) = True"

text \<open>
  The permissions \<^verbatim>\<open>courses.add_course\<close>, \<^verbatim>\<open>courses.change_course\<close>
  and \<^verbatim>\<open>courses.delete_course\<close>.
\<close>

datatype perm = courses_add_course | courses_change_course | courses_delete_course

record request =
  request_user :: user
  request_perms :: "perm list"

text \<open>\<^verbatim>\<open>user.has_perms\<close>: the permissions granted to the requesting user.\<close>

definition has_perm :: "request \<Rightarrow> perm \<Rightarrow> bool" where
  "has_perm r p = (p \<in> set (request_perms r))"

record subject =
  subject_id :: nat
  subject_title :: string
  subject_slug :: string

record course =
  course_id :: nat
  course_owner :: nat
  course_subject :: nat
  course_title :: string
  course_slug :: string
  course_overview :: string

record module =
  module_id :: nat
  module_course :: nat
  module_title :: string
  module_description :: string
  module_order :: int

text \<open>The four typed models that \<^verbatim>\<open>apps.get_model\<close> can resolve.\<close>

datatype model_kind = Text | Video | Image | File

text \<open>A typed item; the type-specific field (text, url or file) is \<open>item_payload\<close>.\<close>

record item =
  item_id :: nat
  item_owner :: nat
  item_title :: string
  item_payload :: string

text \<open>
  A Content row: the generic foreign key \<^verbatim>\<open>item\<close> is the pair of the model and the
  primary key of the typed item.
\<close>

record content =
  content_id :: nat
  content_module :: nat
  content_type :: model_kind
  object_id :: nat
  content_order :: int

record db =
  Subject_objects :: "subject list"
  Course_objects :: "course list"
  Module_objects :: "module list"
  Content_objects :: "content list"
  Text_objects :: "item list"
  Video_objects :: "item list"
  Image_objects :: "item list"
  File_objects :: "item list"

fun objects_of :: "model_kind \<Rightarrow> db \<Rightarrow> item list" where
  "objects_of Text d = Text_objects d"
| "objects_of Video d = Video_objects d"
| "objects_of Image d = Image_objects d"
| "objects_of File d = File_objects d"

fun set_objects :: "model_kind \<Rightarrow> item list \<Rightarrow> db \<Rightarrow> db" where
  "set_objects Text xs d = d\<lparr>Text_objects := xs\<rparr>"
| "set_objects Video xs d = d\<lparr>Video_objects := xs\<rparr>"
| "set_objects Image xs d = d\<lparr>Image_objects := xs\<rparr>"
| "set_objects File xs d = d\<lparr>File_objects := xs\<rparr>"

subsection \<open>Exceptions and responses\<close>

text \<open>
  The exceptions a view can let escape. \<open>Http404\<close> is answered with "not found",
  \<open>PermissionDenied\<close> with "forbidden"; every other one is an unhandled server error.
\<close>

datatype error =
    Http404
  | PermissionDenied
  | ImproperlyConfigured
  | MultipleObjectsReturned
  | IntegrityError
  | TypeError
  | ValueError
  | AttributeError
  | NameError

datatype route = login | manage_course_list | module_content_list nat

record course_form =
  form_subject :: nat
  form_title :: string
  form_slug :: string
  form_overview :: string

record content_form =
  field_title :: string
  field_payload :: string

text \<open>
  One row of the module formset, as submitted: a new module, an edit of an existing
  module, or an existing module marked for deletion.
\<close>

datatype row =
    AddRow string string
  | EditRow nat string string
  | DeleteRow nat

text \<open>What a template is rendered with.\<close>

datatype template_context =
    CourseListContext "course list"
  | CourseFormContext "course option" "course_form option"
  | CourseDeleteContext course
  | FormsetContext course "row list"
  | ContentFormContext "content_form option" "item option"
  | ModuleContext module
  | CatalogContext "(subject \<times> nat) list" "subject option" "(course \<times> nat) list"

datatype response =
    Redirect route
  | Render string template_context
  | JsonResponse "(string \<times> string) list"

type_synonym outcome = "(error + response) \<times> db"

subsection \<open>The object-relational mapper\<close>

text \<open>
  A lookup that compares an owner column with \<^verbatim>\<open>request.user\<close> needs the user's
  primary key; the anonymous user has none and building the lookup raises \<open>TypeError\<close>.
\<close>

fun orm_user :: "user \<Rightarrow> error + nat" where
  "orm_user AnonymousUser = Inl TypeError"
| "orm_user (User a) = Inr a"

text \<open>
  \<^verbatim>\<open>get_object_or_404(klass, **lookup)\<close>: the single row matching the lookup;
  \<open>Http404\<close> when there is none, \<open>MultipleObjectsReturned\<close> when there are several.
\<close>

definition get_object_or_404 :: "'a list \<Rightarrow> ('a \<Rightarrow> bool) \<Rightarrow> error + 'a" where
  "get_object_or_404 objects lookup =
     (case filter lookup objects of
        [] \<Rightarrow> Inl Http404
      | [x] \<Rightarrow> Inr x
      | x # y # zs \<Rightarrow> Inl MultipleObjectsReturned)"

text \<open>The next value of an auto-incremented primary key.\<close>

definition next_id :: "nat list \<Rightarrow> nat" where
  "next_id ids = Suc (fold max ids 0)"

text \<open>\<^verbatim>\<open>course__owner=user\<close> on Module and \<^verbatim>\<open>module__course__owner=user\<close> on Content.\<close>

definition course__owner :: "db \<Rightarrow> nat \<Rightarrow> module \<Rightarrow> bool" where
  "course__owner d a m =
     list_ex (\<lambda>c. course_id c = module_course m \<and> course_owner c = a) (Course_objects d)"

definition module__course__owner :: "db \<Rightarrow> nat \<Rightarrow> content \<Rightarrow> bool" where
  "module__course__owner d a c =
     list_ex (\<lambda>m. module_id m = content_module c \<and> course__owner d a m) (Module_objects d)"

subsection \<open>View classes, their bases and class attributes\<close>

text \<open>
  The mixins that the views of this file inherit from. \<open>OwnerMixin\<close> and
  \<open>OwnerEditMixin\<close> are defined in the file; the others come from the framework.
\<close>

datatype mixin =
    LoginRequiredMixin
  | PermissionRequiredMixin
  | OwnerMixin
  | OwnerEditMixin
  | CsrfExemptMixin
  | JsonRequestResponseMixin

datatype view =
    ManageCourseListView
  | CourseCreateView
  | CourseUpdateView
  | CourseDeleteView
  | CourseModuleUpdateView
  | ContentCreateUpdateView
  | ContentDeleteView
  | ModuleContentListView
  | ModuleOrderView
  | ContentOrderView
  | CourseListView
  | CourseDetailView

text \<open>\<^verbatim>\<open>class OwnerCourseMixin(OwnerMixin, LoginRequiredMixin)\<close>\<close>

definition OwnerCourseMixin :: "mixin list" where
  "OwnerCourseMixin = [OwnerMixin, LoginRequiredMixin]"

text \<open>\<^verbatim>\<open>class OwnerCourseEditMixin(OwnerCourseMixin, OwnerEditMixin)\<close>\<close>

definition OwnerCourseEditMixin :: "mixin list" where
  "OwnerCourseEditMixin = OwnerCourseMixin @ [OwnerEditMixin]"

text \<open>
  The mixins of each view class in method resolution order, as its \<^verbatim>\<open>class\<close>
  statement lists them (the generic view and \<^verbatim>\<open>TemplateResponseMixin\<close>, which
  check nothing, are left out).
\<close>

fun bases :: "view \<Rightarrow> mixin list" where
  "bases ManageCourseListView = OwnerCourseMixin"
| "bases CourseCreateView = PermissionRequiredMixin # OwnerCourseEditMixin"
| "bases CourseUpdateView = OwnerCourseEditMixin"
| "bases CourseDeleteView = OwnerCourseMixin"
| "bases CourseModuleUpdateView = []"
| "bases ContentCreateUpdateView = []"
| "bases ContentDeleteView = []"
| "bases ModuleContentListView = []"
| "bases ModuleOrderView = [CsrfExemptMixin, JsonRequestResponseMixin]"
| "bases ContentOrderView = [CsrfExemptMixin, JsonRequestResponseMixin]"
| "bases CourseListView = []"
| "bases CourseDetailView = []"

text \<open>The class attribute \<^verbatim>\<open>permission_required\<close>, where a class sets it.\<close>

fun permission_required :: "view \<Rightarrow> perm option" where
  "permission_required CourseCreateView = Some courses_add_course"
| "permission_required CourseUpdateView = Some courses_change_course"
| "permission_required CourseDeleteView = Some courses_delete_course"
| "permission_required v = None"

fun template_name :: "view \<Rightarrow> string" where
  "template_name ManageCourseListView = ''courses/manage/course/list.html''"
| "template_name CourseCreateView = ''courses/manage/course/form.html''"
| "template_name CourseUpdateView = ''courses/manage/course/form.html''"
| "template_name CourseDeleteView = ''courses/manage/course/delete.html''"
| "template_name CourseModuleUpdateView = ''courses/manage/module/formset.html''"
| "template_name ContentCreateUpdateView = ''courses/manage/content/form.html''"
| "template_name ModuleContentListView = ''courses/manage/module/content_list.html''"
| "template_name CourseListView = ''courses/course/list.html''"
| "template_name CourseDetailView = ''courses/course/detail.html''"
| "template_name v = []"

text \<open>\<^verbatim>\<open>success_url = reverse_lazy('manage_course_list')\<close>\<close>

definition success_url :: "view \<Rightarrow> route" where
  "success_url v = manage_course_list"

subsection \<open>The access mixins of the framework\<close>

text \<open>
  \<^verbatim>\<open>AccessMixin.handle_no_permission\<close> with the default
  \<^verbatim>\<open>raise_exception = False\<close>: an authenticated user gets \<open>PermissionDenied\<close>,
  an anonymous one is sent to the login page.
\<close>

definition handle_no_permission :: "request \<Rightarrow> error + response" where
  "handle_no_permission r =
     (if is_authenticated (request_user r) then Inl PermissionDenied
      else Inr (Redirect login))"

text \<open>
  The \<^verbatim>\<open>dispatch\<close> of one mixin: \<open>Some\<close> of the answer when the mixin ends the
  request, \<open>None\<close> when it hands on to the next class. Only the two access mixins
  check anything; \<open>PermissionRequiredMixin\<close> is the only reader of
  \<^verbatim>\<open>permission_required\<close>.
\<close>

fun mixin_dispatch :: "mixin \<Rightarrow> perm option \<Rightarrow> request \<Rightarrow> (error + response) option" where
  "mixin_dispatch LoginRequiredMixin p r =
     (if is_authenticated (request_user r) then None else Some (handle_no_permission r))"
| "mixin_dispatch PermissionRequiredMixin p r =
     (case p of
        None \<Rightarrow> Some (Inl ImproperlyConfigured)
      | Some q \<Rightarrow> if has_perm r q then None else Some (handle_no_permission r))"
| "mixin_dispatch m p r = None"

fun dispatch_mixins :: "mixin list \<Rightarrow> perm option \<Rightarrow> request \<Rightarrow> (error + response) option" where
  "dispatch_mixins [] p r = None"
| "dispatch_mixins (m # ms) p r =
     (case mixin_dispatch m p r of
        Some out \<Rightarrow> Some out
      | None \<Rightarrow> dispatch_mixins ms p r)"

text \<open>What the inherited \<^verbatim>\<open>dispatch\<close> methods of a view class do before its handler runs.\<close>

definition dispatch :: "view \<Rightarrow> request \<Rightarrow> (error + response) option" where
  "dispatch v r = dispatch_mixins (bases v) (permission_required v) r"

subsection \<open>Course list, create, update and delete\<close>

text \<open>
  \<^verbatim>\<open>OwnerMixin.get_queryset\<close>: with the mixin among the bases the queryset is
  \<^verbatim>\<open>qs.filter(owner=self.request.user)\<close>, without it all Courses.
\<close>

definition get_queryset :: "view \<Rightarrow> db \<Rightarrow> request \<Rightarrow> error + course list" where
  "get_queryset v d r =
     (if OwnerMixin \<in> set (bases v)
      then (case orm_user (request_user r) of
              Inl e \<Rightarrow> Inl e
            | Inr a \<Rightarrow> Inr (filter (\<lambda>c. course_owner c = a) (Course_objects d)))
      else Inr (Course_objects d))"

text \<open>\<^verbatim>\<open>SingleObjectMixin.get_object\<close>: the row of the queryset with the primary key.\<close>

definition get_object :: "view \<Rightarrow> db \<Rightarrow> request \<Rightarrow> nat \<Rightarrow> error + course" where
  "get_object v d r pk =
     (case get_queryset v d r of
        Inl e \<Rightarrow> Inl e
      | Inr qs \<Rightarrow> get_object_or_404 qs (\<lambda>c. course_id c = pk))"

text \<open>
  \<^verbatim>\<open>OwnerEditMixin.form_valid\<close>: the owner that
  \<^verbatim>\<open>form.instance.owner = self.request.user\<close> assigns, \<open>None\<close> for a class without
  the mixin. Assigning the anonymous user to the foreign key raises \<open>ValueError\<close>.
\<close>

definition form_valid :: "view \<Rightarrow> request \<Rightarrow> error + nat option" where
  "form_valid v r =
     (if OwnerEditMixin \<in> set (bases v)
      then (case request_user r of
              AnonymousUser \<Rightarrow> Inl ValueError
            | User a \<Rightarrow> Inr (Some a))
      else Inr None)"

text \<open>The form writes \<^verbatim>\<open>fields = ['subject', 'title', 'slug', 'overview']\<close> to the instance.\<close>

definition construct_instance :: "course_form \<Rightarrow> course \<Rightarrow> course" where
  "construct_instance f c =
     c\<lparr>course_subject := form_subject f, course_title := form_title f,
       course_slug := form_slug f, course_overview := form_overview f\<rparr>"

definition save_course :: "course \<Rightarrow> db \<Rightarrow> db" where
  "save_course c d =
     d\<lparr>Course_objects :=
         map (\<lambda>x. if course_id x = course_id c then c else x) (Course_objects d)\<rparr>"

definition insert_course :: "nat \<Rightarrow> course_form \<Rightarrow> db \<Rightarrow> db" where
  "insert_course a f d =
     d\<lparr>Course_objects := Course_objects d @
         [\<lparr>course_id = next_id (map course_id (Course_objects d)), course_owner = a,
           course_subject = form_subject f, course_title = form_title f,
           course_slug = form_slug f, course_overview = form_overview f\<rparr>]\<rparr>"

text \<open>
  Modelled from the spec: the models are declared in \<^verbatim>\<open>courses/models.py\<close>, which
  is not part of the sources at hand. Removing a Course removes, by cascade in the
  storage layer, its Modules and their Content rows.
\<close>

definition delete_course :: "course \<Rightarrow> db \<Rightarrow> db" where
  "delete_course c d =
     (let gone = filter (\<lambda>m. module_course m = course_id c) (Module_objects d) in
      d\<lparr>Course_objects := filter (\<lambda>x. course_id x \<noteq> course_id c) (Course_objects d),
        Module_objects := filter (\<lambda>m. module_course m \<noteq> course_id c) (Module_objects d),
        Content_objects :=
          filter (\<lambda>x. content_module x \<notin> set (map module_id gone))
            (Content_objects d)\<rparr>)"

text \<open>
  The generic views of the framework. \<open>is_valid\<close> is the validation of the submitted
  form against the model, which the framework and \<^verbatim>\<open>models.py\<close> decide.
\<close>

definition ListView_get :: "view \<Rightarrow> db \<Rightarrow> request \<Rightarrow> error + response" where
  "ListView_get v d r =
     (case dispatch v r of
        Some out \<Rightarrow> out
      | None \<Rightarrow>
          (case get_queryset v d r of
             Inl e \<Rightarrow> Inl e
           | Inr qs \<Rightarrow> Inr (Render (template_name v) (CourseListContext qs))))"

definition CreateView_post ::
  "view \<Rightarrow> (db \<Rightarrow> course_form \<Rightarrow> bool) \<Rightarrow> db \<Rightarrow> request \<Rightarrow> course_form \<Rightarrow> outcome" where
  "CreateView_post v is_valid d r f =
     (case dispatch v r of
        Some out \<Rightarrow> (out, d)
      | None \<Rightarrow>
          if is_valid d f
          then (case form_valid v r of
                  Inl e \<Rightarrow> (Inl e, d)
                | Inr None \<Rightarrow> (Inl IntegrityError, d)
                | Inr (Some a) \<Rightarrow> (Inr (Redirect (success_url v)), insert_course a f d))
          else (Inr (Render (template_name v) (CourseFormContext None (Some f))), d))"

definition UpdateView_get :: "view \<Rightarrow> db \<Rightarrow> request \<Rightarrow> nat \<Rightarrow> error + response" where
  "UpdateView_get v d r pk =
     (case dispatch v r of
        Some out \<Rightarrow> out
      | None \<Rightarrow>
          (case get_object v d r pk of
             Inl e \<Rightarrow> Inl e
           | Inr obj \<Rightarrow> Inr (Render (template_name v) (CourseFormContext (Some obj) None))))"

definition UpdateView_post ::
  "view \<Rightarrow> (db \<Rightarrow> course_form \<Rightarrow> bool) \<Rightarrow> db \<Rightarrow> request \<Rightarrow> nat \<Rightarrow> course_form \<Rightarrow> outcome" where
  "UpdateView_post v is_valid d r pk f =
     (case dispatch v r of
        Some out \<Rightarrow> (out, d)
      | None \<Rightarrow>
          (case get_object v d r pk of
             Inl e \<Rightarrow> (Inl e, d)
           | Inr obj \<Rightarrow>
               if is_valid d f
               then (case form_valid v r of
                       Inl e \<Rightarrow> (Inl e, d)
                     | Inr None \<Rightarrow>
                         (Inr (Redirect (success_url v)),
                          save_course (construct_instance f obj) d)
                     | Inr (Some a) \<Rightarrow>
                         (Inr (Redirect (success_url v)),
                          save_course ((construct_instance f obj)\<lparr>course_owner := a\<rparr>) d))
               else (Inr (Render (template_name v) (CourseFormContext (Some obj) (Some f))),
                     d)))"

definition DeleteView_get :: "view \<Rightarrow> db \<Rightarrow> request \<Rightarrow> nat \<Rightarrow> error + response" where
  "DeleteView_get v d r pk =
     (case dispatch v r of
        Some out \<Rightarrow> out
      | None \<Rightarrow>
          (case get_object v d r pk of
             Inl e \<Rightarrow> Inl e
           | Inr obj \<Rightarrow> Inr (Render (template_name v) (CourseDeleteContext obj))))"

definition DeleteView_post :: "view \<Rightarrow> db \<Rightarrow> request \<Rightarrow> nat \<Rightarrow> outcome" where
  "DeleteView_post v d r pk =
     (case dispatch v r of
        Some out \<Rightarrow> (out, d)
      | None \<Rightarrow>
          (case get_object v d r pk of
             Inl e \<Rightarrow> (Inl e, d)
           | Inr obj \<Rightarrow> (Inr (Redirect (success_url v)), delete_course obj d)))"

definition ManageCourseListView_get :: "db \<Rightarrow> request \<Rightarrow> error + response" where
  "ManageCourseListView_get = ListView_get ManageCourseListView"

definition CourseCreateView_post ::
  "(db \<Rightarrow> course_form \<Rightarrow> bool) \<Rightarrow> db \<Rightarrow> request \<Rightarrow> course_form \<Rightarrow> outcome" where
  "CourseCreateView_post = CreateView_post CourseCreateView"

definition CourseUpdateView_get :: "db \<Rightarrow> request \<Rightarrow> nat \<Rightarrow> error + response" where
  "CourseUpdateView_get = UpdateView_get CourseUpdateView"

definition CourseUpdateView_post ::
  "(db \<Rightarrow> course_form \<Rightarrow> bool) \<Rightarrow> db \<Rightarrow> request \<Rightarrow> nat \<Rightarrow> course_form \<Rightarrow> outcome" where
  "CourseUpdateView_post = UpdateView_post CourseUpdateView"

definition CourseDeleteView_get :: "db \<Rightarrow> request \<Rightarrow> nat \<Rightarrow> error + response" where
  "CourseDeleteView_get = DeleteView_get CourseDeleteView"

definition CourseDeleteView_post :: "db \<Rightarrow> request \<Rightarrow> nat \<Rightarrow> outcome" where
  "CourseDeleteView_post = DeleteView_post CourseDeleteView"

subsection \<open>The module formset\<close>

text \<open>
  \<^verbatim>\<open>CourseModuleUpdateView.dispatch\<close>:
  \<^verbatim>\<open>get_object_or_404(Course, id=pk, owner=self.request.user)\<close>.
\<close>

definition CourseModuleUpdateView_dispatch :: "db \<Rightarrow> request \<Rightarrow> nat \<Rightarrow> error + course" where
  "CourseModuleUpdateView_dispatch d r pk =
     (case orm_user (request_user r) of
        Inl e \<Rightarrow> Inl e
      | Inr a \<Rightarrow>
          get_object_or_404 (Course_objects d) (\<lambda>c. course_id c = pk \<and> course_owner c = a))"

text \<open>
  Modelled from the spec: \<^verbatim>\<open>ModuleFormSet\<close> is declared in
  \<^verbatim>\<open>courses/forms.py\<close> and the \<^verbatim>\<open>order\<close> field of Module in
  \<^verbatim>\<open>courses/models.py\<close>; neither is part of the sources at hand. The formset is
  bound to the Modules of one Course. A row is valid when its fields are (\<open>clean\<close>, decided
  by the form) and, for an edit or a deletion, when it names a Module of that Course; the
  formset is valid when every row is. Saving applies every row. A new Module gets the
  order after the last one of its Course, zero when it is the first.
\<close>

definition row_names_module :: "db \<Rightarrow> course \<Rightarrow> nat \<Rightarrow> bool" where
  "row_names_module d c i =
     list_ex (\<lambda>m. module_id m = i \<and> module_course m = course_id c) (Module_objects d)"

fun row_is_valid :: "(row \<Rightarrow> bool) \<Rightarrow> db \<Rightarrow> course \<Rightarrow> row \<Rightarrow> bool" where
  "row_is_valid clean d c (AddRow t ds) = clean (AddRow t ds)"
| "row_is_valid clean d c (EditRow i t ds) = (clean (EditRow i t ds) \<and> row_names_module d c i)"
| "row_is_valid clean d c (DeleteRow i) = (clean (DeleteRow i) \<and> row_names_module d c i)"

definition formset_is_valid :: "(row \<Rightarrow> bool) \<Rightarrow> db \<Rightarrow> course \<Rightarrow> row list \<Rightarrow> bool" where
  "formset_is_valid clean d c rows = list_all (row_is_valid clean d c) rows"

definition default_order :: "int list \<Rightarrow> int" where
  "default_order orders = (if orders = [] then 0 else fold max orders 0 + 1)"

fun save_row :: "course \<Rightarrow> row \<Rightarrow> db \<Rightarrow> db" where
  "save_row c (AddRow t ds) d =
     d\<lparr>Module_objects := Module_objects d @
         [\<lparr>module_id = next_id (map module_id (Module_objects d)),
           module_course = course_id c, module_title = t, module_description = ds,
           module_order =
             default_order
               (map module_order
                  (filter (\<lambda>m. module_course m = course_id c) (Module_objects d)))\<rparr>]\<rparr>"
| "save_row c (EditRow i t ds) d =
     d\<lparr>Module_objects :=
         map (\<lambda>m. if module_id m = i \<and> module_course m = course_id c
                   then m\<lparr>module_title := t, module_description := ds\<rparr> else m)
           (Module_objects d)\<rparr>"
| "save_row c (DeleteRow i) d =
     d\<lparr>Module_objects :=
         filter (\<lambda>m. \<not> (module_id m = i \<and> module_course m = course_id c)) (Module_objects d),
       Content_objects :=
         (if row_names_module d c i
          then filter (\<lambda>x. content_module x \<noteq> i) (Content_objects d)
          else Content_objects d)\<rparr>"

definition formset_save :: "course \<Rightarrow> row list \<Rightarrow> db \<Rightarrow> db" where
  "formset_save c rows d = fold (save_row c) rows d"

text \<open>The unbound formset that GET renders: one row per Module of the Course.\<close>

definition get_formset :: "db \<Rightarrow> course \<Rightarrow> row list" where
  "get_formset d c =
     map (\<lambda>m. EditRow (module_id m) (module_title m) (module_description m))
       (filter (\<lambda>m. module_course m = course_id c) (Module_objects d))"

definition CourseModuleUpdateView_get :: "db \<Rightarrow> request \<Rightarrow> nat \<Rightarrow> error + response" where
  "CourseModuleUpdateView_get d r pk =
     (case CourseModuleUpdateView_dispatch d r pk of
        Inl e \<Rightarrow> Inl e
      | Inr c \<Rightarrow>
          (case dispatch CourseModuleUpdateView r of
             Some out \<Rightarrow> out
           | None \<Rightarrow>
               Inr (Render (template_name CourseModuleUpdateView)
                      (FormsetContext c (get_formset d c)))))"

definition CourseModuleUpdateView_post ::
  "(row \<Rightarrow> bool) \<Rightarrow> db \<Rightarrow> request \<Rightarrow> nat \<Rightarrow> row list \<Rightarrow> outcome" where
  "CourseModuleUpdateView_post clean d r pk rows =
     (case CourseModuleUpdateView_dispatch d r pk of
        Inl e \<Rightarrow> (Inl e, d)
      | Inr c \<Rightarrow>
          (case dispatch CourseModuleUpdateView r of
             Some out \<Rightarrow> (out, d)
           | None \<Rightarrow>
               if formset_is_valid clean d c rows
               then (Inr (Redirect manage_course_list), formset_save c rows d)
               else (Inr (Render (template_name CourseModuleUpdateView)
                            (FormsetContext c rows)), d)))"

subsection \<open>Typed content: create, update, delete, list\<close>

text \<open>\<^verbatim>\<open>apps.get_model(app_label='courses', model_name=model_name)\<close>\<close>

definition apps_get_model :: "string \<Rightarrow> model_kind option" where
  "apps_get_model model_name =
     (if model_name = ''text'' then Some Text
      else if model_name = ''video'' then Some Video
      else if model_name = ''image'' then Some Image
      else if model_name = ''file'' then Some File
      else None)"

text \<open>\<^verbatim>\<open>ContentCreateUpdateView.get_model\<close>: \<open>None\<close> outside the allow-list.\<close>

definition get_model :: "string \<Rightarrow> model_kind option" where
  "get_model model_name =
     (if model_name \<in> set [''text'', ''video'', ''image'', ''file'']
      then apps_get_model model_name
      else None)"

text \<open>
  \<^verbatim>\<open>ContentCreateUpdateView.dispatch\<close>: the Module by id and course owner, the model
  by name and, when an id is given, the typed item by id and owner. The \<^verbatim>\<open>id\<close>
  argument is the segment the URL resolver captured (a non-empty string, so
  \<^verbatim>\<open>if id:\<close> holds exactly when it is present), written here as the number it
  denotes. \<^verbatim>\<open>get_object_or_404(None, ...)\<close> raises \<open>ValueError\<close>.
\<close>

definition ContentCreateUpdateView_dispatch ::
  "db \<Rightarrow> request \<Rightarrow> nat \<Rightarrow> string \<Rightarrow> nat option
     \<Rightarrow> error + (module \<times> model_kind option \<times> item option)" where
  "ContentCreateUpdateView_dispatch d r mid model_name ident =
     (case orm_user (request_user r) of
        Inl e \<Rightarrow> Inl e
      | Inr a \<Rightarrow>
          (case get_object_or_404 (Module_objects d)
                  (\<lambda>m. module_id m = mid \<and> course__owner d a m) of
             Inl e \<Rightarrow> Inl e
           | Inr m \<Rightarrow>
               (case ident of
                  None \<Rightarrow> Inr (m, get_model model_name, None)
                | Some i \<Rightarrow>
                    (case get_model model_name of
                       None \<Rightarrow> Inl ValueError
                     | Some k \<Rightarrow>
                         (case get_object_or_404 (objects_of k d)
                                 (\<lambda>x. item_id x = i \<and> item_owner x = a) of
                            Inl e \<Rightarrow> Inl e
                          | Inr obj \<Rightarrow> Inr (m, Some k, Some obj))))))"

text \<open>
  \<^verbatim>\<open>get_form\<close> hands the model to \<^verbatim>\<open>modelform_factory\<close>, which reads
  \<^verbatim>\<open>model.__name__\<close>: with no model that is an \<open>AttributeError\<close>.
\<close>

definition get_form :: "model_kind option \<Rightarrow> error + model_kind" where
  "get_form model = (case model of None \<Rightarrow> Inl AttributeError | Some k \<Rightarrow> Inr k)"

definition ContentCreateUpdateView_get ::
  "db \<Rightarrow> request \<Rightarrow> nat \<Rightarrow> string \<Rightarrow> nat option \<Rightarrow> error + response" where
  "ContentCreateUpdateView_get d r mid model_name ident =
     (case ContentCreateUpdateView_dispatch d r mid model_name ident of
        Inl e \<Rightarrow> Inl e
      | Inr (m, model, obj) \<Rightarrow>
          (case dispatch ContentCreateUpdateView r of
             Some out \<Rightarrow> out
           | None \<Rightarrow>
               (case get_form model of
                  Inl e \<Rightarrow> Inl e
                | Inr k \<Rightarrow>
                    Inr (Render (template_name ContentCreateUpdateView)
                           (ContentFormContext None obj)))))"

text \<open>
  \<^verbatim>\<open>obj = form.save(commit=False); obj.owner = request.user; obj.save()\<close>:
  a new row with the next primary key when there was no instance, the instance's row
  rewritten otherwise. The saved object is returned with the store.
\<close>

definition save_item ::
  "model_kind \<Rightarrow> nat \<Rightarrow> item option \<Rightarrow> content_form \<Rightarrow> db \<Rightarrow> item \<times> db" where
  "save_item k a obj f d =
     (case obj of
        None \<Rightarrow>
          (let new = \<lparr>item_id = next_id (map item_id (objects_of k d)), item_owner = a,
                      item_title = field_title f, item_payload = field_payload f\<rparr>
           in (new, set_objects k (objects_of k d @ [new]) d))
      | Some old \<Rightarrow>
          (let new = old\<lparr>item_owner := a, item_title := field_title f,
                         item_payload := field_payload f\<rparr>
           in (new,
               set_objects k
                 (map (\<lambda>x. if item_id x = item_id old then new else x) (objects_of k d)) d)))"

text \<open>
  \<^verbatim>\<open>Content.objects.create(module=self.module, item=obj)\<close>. Modelled from the spec
  (the \<^verbatim>\<open>order\<close> field is declared in \<^verbatim>\<open>courses/models.py\<close>): the order is
  the storage layer's default, the one after the last Content of the Module.
\<close>

definition create_content :: "module \<Rightarrow> model_kind \<Rightarrow> item \<Rightarrow> db \<Rightarrow> db" where
  "create_content m k obj d =
     d\<lparr>Content_objects := Content_objects d @
         [\<lparr>content_id = next_id (map content_id (Content_objects d)),
           content_module = module_id m, content_type = k, object_id = item_id obj,
           content_order =
             default_order
               (map content_order
                  (filter (\<lambda>x. content_module x = module_id m) (Content_objects d)))\<rparr>]\<rparr>"

definition ContentCreateUpdateView_post ::
  "(model_kind \<Rightarrow> content_form \<Rightarrow> bool) \<Rightarrow> db \<Rightarrow> request \<Rightarrow> nat \<Rightarrow> string \<Rightarrow> nat option
     \<Rightarrow> content_form \<Rightarrow> outcome" where
  "ContentCreateUpdateView_post is_valid d r mid model_name ident f =
     (case ContentCreateUpdateView_dispatch d r mid model_name ident of
        Inl e \<Rightarrow> (Inl e, d)
      | Inr (m, model, obj) \<Rightarrow>
          (case dispatch ContentCreateUpdateView r of
             Some out \<Rightarrow> (out, d)
           | None \<Rightarrow>
               (case get_form model of
                  Inl e \<Rightarrow> (Inl e, d)
                | Inr k \<Rightarrow>
                    if is_valid k f
                    then (case request_user r of
                            AnonymousUser \<Rightarrow> (Inl ValueError, d)
                          | User a \<Rightarrow>
                              (let (new, d') = save_item k a obj f d in
                               (Inr (Redirect (module_content_list (module_id m))),
                                (case ident of
                                   None \<Rightarrow> create_content m k new d'
                                 | Some i \<Rightarrow> d'))))
                    else (Inr (Render (template_name ContentCreateUpdateView)
                                 (ContentFormContext (Some f) obj)), d))))"

text \<open>
  \<^verbatim>\<open>content.item\<close>: the generic foreign key resolved; \<open>None\<close> when the typed row
  is missing.
\<close>

definition content_item :: "db \<Rightarrow> content \<Rightarrow> item option" where
  "content_item d c = find (\<lambda>x. item_id x = object_id c) (objects_of (content_type c) d)"

definition delete_item :: "model_kind \<Rightarrow> item \<Rightarrow> db \<Rightarrow> db" where
  "delete_item k x d = set_objects k (filter (\<lambda>y. item_id y \<noteq> item_id x) (objects_of k d)) d"

definition delete_content :: "content \<Rightarrow> db \<Rightarrow> db" where
  "delete_content c d =
     d\<lparr>Content_objects := filter (\<lambda>x. content_id x \<noteq> content_id c) (Content_objects d)\<rparr>"

text \<open>
  \<^verbatim>\<open>ContentDeleteView.post\<close>. After the two deletions the handler evaluates
  \<^verbatim>\<open>module.id\<close>; no name \<^verbatim>\<open>module\<close> is bound in the method or in the file, so
  that is a \<open>NameError\<close>, raised with both rows already deleted.
\<close>

definition ContentDeleteView_post :: "db \<Rightarrow> request \<Rightarrow> nat \<Rightarrow> outcome" where
  "ContentDeleteView_post d r ident =
     (case dispatch ContentDeleteView r of
        Some out \<Rightarrow> (out, d)
      | None \<Rightarrow>
          (case orm_user (request_user r) of
             Inl e \<Rightarrow> (Inl e, d)
           | Inr a \<Rightarrow>
               (case get_object_or_404 (Content_objects d)
                       (\<lambda>c. content_id c = ident \<and> module__course__owner d a c) of
                  Inl e \<Rightarrow> (Inl e, d)
                | Inr c \<Rightarrow>
                    (case content_item d c of
                       None \<Rightarrow> (Inl AttributeError, d)
                     | Some x \<Rightarrow>
                         (Inl NameError,
                          delete_content c (delete_item (content_type c) x d))))))"

definition ModuleContentListView_get :: "db \<Rightarrow> request \<Rightarrow> nat \<Rightarrow> error + response" where
  "ModuleContentListView_get d r mid =
     (case dispatch ModuleContentListView r of
        Some out \<Rightarrow> out
      | None \<Rightarrow>
          (case orm_user (request_user r) of
             Inl e \<Rightarrow> Inl e
           | Inr a \<Rightarrow>
               (case get_object_or_404 (Module_objects d)
                       (\<lambda>m. module_id m = mid \<and> course__owner d a m) of
                  Inl e \<Rightarrow> Inl e
                | Inr m \<Rightarrow>
                    Inr (Render (template_name ModuleContentListView) (ModuleContext m)))))"

subsection \<open>Ordering\<close>

text \<open>
  \<^verbatim>\<open>Module.objects.filter(id=id, course__owner=request.user).update(order=order)\<close>:
  every matching row gets the order, no row matching is not an error.
\<close>

definition update_module_order :: "nat \<Rightarrow> nat \<Rightarrow> int \<Rightarrow> db \<Rightarrow> db" where
  "update_module_order a i order d =
     d\<lparr>Module_objects :=
         map (\<lambda>m. if module_id m = i \<and> course__owner d a m
                   then m\<lparr>module_order := order\<rparr> else m)
           (Module_objects d)\<rparr>"

definition update_content_order :: "nat \<Rightarrow> nat \<Rightarrow> int \<Rightarrow> db \<Rightarrow> db" where
  "update_content_order a i order d =
     d\<lparr>Content_objects :=
         map (\<lambda>c. if content_id c = i \<and> module__course__owner d a c
                   then c\<lparr>content_order := order\<rparr> else c)
           (Content_objects d)\<rparr>"

text \<open>
  \<^verbatim>\<open>for id, order in self.request_json.items()\<close>: the pairs of the submitted
  mapping in order, each key written as the id it denotes. An exception ends the loop
  and keeps the updates made so far.
\<close>

fun order_loop ::
  "(nat \<Rightarrow> nat \<Rightarrow> int \<Rightarrow> db \<Rightarrow> db) \<Rightarrow> user \<Rightarrow> (nat \<times> int) list \<Rightarrow> db \<Rightarrow> error option \<times> db" where
  "order_loop update u [] d = (None, d)"
| "order_loop update u ((i, order) # rest) d =
     (case orm_user u of
        Inl e \<Rightarrow> (Some e, d)
      | Inr a \<Rightarrow> order_loop update u rest (update a i order d))"

definition OrderView_post ::
  "view \<Rightarrow> (nat \<Rightarrow> nat \<Rightarrow> int \<Rightarrow> db \<Rightarrow> db) \<Rightarrow> db \<Rightarrow> request \<Rightarrow> (nat \<times> int) list \<Rightarrow> outcome" where
  "OrderView_post v update d r request_json =
     (case dispatch v r of
        Some out \<Rightarrow> (out, d)
      | None \<Rightarrow>
          (case order_loop update (request_user r) request_json d of
             (Some e, d') \<Rightarrow> (Inl e, d')
           | (None, d') \<Rightarrow> (Inr (JsonResponse [(''saved'', ''OK'')]), d')))"

definition ModuleOrderView_post :: "db \<Rightarrow> request \<Rightarrow> (nat \<times> int) list \<Rightarrow> outcome" where
  "ModuleOrderView_post = OrderView_post ModuleOrderView update_module_order"

definition ContentOrderView_post :: "db \<Rightarrow> request \<Rightarrow> (nat \<times> int) list \<Rightarrow> outcome" where
  "ContentOrderView_post = OrderView_post ContentOrderView update_content_order"

subsection \<open>The public catalog\<close>

text \<open>\<^verbatim>\<open>Subject.objects.annotate(total_courses=Count('courses'))\<close>\<close>

definition total_courses :: "db \<Rightarrow> subject \<Rightarrow> nat" where
  "total_courses d s =
     length (filter (\<lambda>c. course_subject c = subject_id s) (Course_objects d))"

text \<open>\<^verbatim>\<open>Course.objects.annotate(total_modules=Count('modules'))\<close>\<close>

definition total_modules :: "db \<Rightarrow> course \<Rightarrow> nat" where
  "total_modules d c =
     length (filter (\<lambda>m. module_course m = course_id c) (Module_objects d))"

text \<open>\<^verbatim>\<open>if subject:\<close> for an optional string: neither \<^verbatim>\<open>None\<close> nor empty.\<close>

fun truthy :: "string option \<Rightarrow> bool" where
  "truthy None = False"
| "truthy (Some s) = (s \<noteq> [])"

definition CourseListView_get :: "db \<Rightarrow> request \<Rightarrow> string option \<Rightarrow> error + response" where
  "CourseListView_get d r subject =
     (case dispatch CourseListView r of
        Some out \<Rightarrow> out
      | None \<Rightarrow>
          (let subjects = map (\<lambda>s. (s, total_courses d s)) (Subject_objects d);
               courses = map (\<lambda>c. (c, total_modules d c)) (Course_objects d)
           in if truthy subject
              then (case get_object_or_404 (Subject_objects d)
                           (\<lambda>s. Some (subject_slug s) = subject) of
                      Inl e \<Rightarrow> Inl e
                    | Inr s \<Rightarrow>
                        Inr (Render (template_name CourseListView)
                               (CatalogContext subjects (Some s)
                                  (filter (\<lambda>(c, n). course_subject c = subject_id s) courses))))
              else Inr (Render (template_name CourseListView)
                          (CatalogContext subjects None courses))))"

subsection \<open>A sample store\<close>

text \<open>
  Two subjects, two users with one Course each, three Modules, two Content rows and
  three Text items; the Text item 12 is attached to no Module.
\<close>

definition example_db :: db where
  "example_db =
     \<lparr>Subject_objects =
        [\<lparr>subject_id = 1, subject_title = ''Programming'', subject_slug = ''python''\<rparr>,
         \<lparr>subject_id = 2, subject_title = ''Mathematics'', subject_slug = ''maths''\<rparr>],
      Course_objects =
        [\<lparr>course_id = 10, course_owner = 1, course_subject = 1,
          course_title = ''Django Basics'', course_slug = ''django-basics'',
          course_overview = ''Views''\<rparr>,
         \<lparr>course_id = 11, course_owner = 2, course_subject = 2,
          course_title = ''Algebra'', course_slug = ''algebra'', course_overview = ''Groups''\<rparr>],
      Module_objects =
        [\<lparr>module_id = 7, module_course = 10, module_title = ''Intro'',
          module_description = ''First'', module_order = 0\<rparr>,
         \<lparr>module_id = 8, module_course = 11, module_title = ''Sets'',
          module_description = ''Basics'', module_order = 0\<rparr>,
         \<lparr>module_id = 9, module_course = 10, module_title = ''Forms'',
          module_description = ''Second'', module_order = 1\<rparr>],
      Content_objects =
        [\<lparr>content_id = 3, content_module = 7, content_type = Text, object_id = 5,
          content_order = 0\<rparr>,
         \<lparr>content_id = 4, content_module = 8, content_type = Text, object_id = 6,
          content_order = 0\<rparr>],
      Text_objects =
        [\<lparr>item_id = 5, item_owner = 1, item_title = ''Hello'', item_payload = ''World''\<rparr>,
         \<lparr>item_id = 6, item_owner = 2, item_title = ''Axioms'', item_payload = ''ZF''\<rparr>,
         \<lparr>item_id = 12, item_owner = 1, item_title = ''Draft'', item_payload = ''Notes''\<rparr>],
      Video_objects = [], Image_objects = [], File_objects = []\<rparr>"

text \<open>User 1 logged in with no permission granted, user 2 logged in, and nobody logged in.\<close>

definition user1 :: request where
  "user1 = \<lparr>request_user = User 1, request_perms = []\<rparr>"

definition user2 :: request where
  "user2 = \<lparr>request_user = User 2, request_perms = []\<rparr>"

definition anonymous :: request where
  "anonymous = \<lparr>request_user = AnonymousUser, request_perms = []\<rparr>"

definition example_course_form :: course_form where
  "example_course_form =
     \<lparr>form_subject = 1, form_title = ''Django'', form_slug = ''django'',
      form_overview = ''New''\<rparr>"

definition example_content_form :: content_form where
  "example_content_form = \<lparr>field_title = ''Title'', field_payload = ''Body''\<rparr>"

text \<open>A validation that accepts every form, for the samples.\<close>

definition accept_course :: "db \<Rightarrow> course_form \<Rightarrow> bool" where
  "accept_course d f = True"

definition accept_content :: "model_kind \<Rightarrow> content_form \<Rightarrow> bool" where
  "accept_content k f = True"

subsection \<open>The effect of a whole ordering submission on one row\<close>

text \<open>
  The row after the submission \<open>js\<close> of the actor \<open>a\<close>: the mapped order when the
  mapping has the row's id and the row is the actor's, the row as it was otherwise.
\<close>

definition reorder_module :: "db \<Rightarrow> nat \<Rightarrow> (nat \<times> int) list \<Rightarrow> module \<Rightarrow> module" where
  "reorder_module d a js m =
     (case map_of js (module_id m) of
        None \<Rightarrow> m
      | Some order \<Rightarrow> if course__owner d a m then m\<lparr>module_order := order\<rparr> else m)"

definition reorder_content :: "db \<Rightarrow> nat \<Rightarrow> (nat \<times> int) list \<Rightarrow> content \<Rightarrow> content" where
  "reorder_content d a js c =
     (case map_of js (content_id c) of
        None \<Rightarrow> c
      | Some order \<Rightarrow> if module__course__owner d a c then c\<lparr>content_order := order\<rparr> else c)"

text \<open>A field validation for the samples: a Module needs a title.\<close>

definition example_clean :: "row \<Rightarrow> bool" where
  "example_clean w = (case w of AddRow t ds \<Rightarrow> t \<noteq> [] | EditRow i t ds \<Rightarrow> t \<noteq> [] | DeleteRow i \<Rightarrow> True)"

section \<open>Properties\<close>

subsection \<open>Lookups\<close>

lemma get_object_or_404_none:
  "filter P xs = [] \<Longrightarrow> get_object_or_404 xs P = Inl Http404"
  by (simp add: get_object_or_404_def)

lemma get_object_or_404_one:
  "filter P xs = [x] \<Longrightarrow> get_object_or_404 xs P = Inr x"
  by (simp add: get_object_or_404_def)

lemma get_object_or_404_Inr:
  assumes "get_object_or_404 xs P = Inr x"
  shows "filter P xs = [x]"
  using assms by (auto simp: get_object_or_404_def split: list.splits)

lemma filter_singleton_holds:
  assumes "filter P xs = [x]"
  shows "P x \<and> x \<in> set xs"
proof -
  have "x \<in> set (filter P xs)" using assms by simp
  then show ?thesis by simp
qed

text \<open>With a unique key, the lookup by the key of a stored row finds that row only.\<close>

lemma filter_key_unique:
  assumes "distinct (map f xs)" and "x \<in> set xs"
  shows "filter (\<lambda>y. f y = f x) xs = [x]"
  using assms
proof (induction xs)
  case Nil
  then show ?case by simp
next
  case (Cons y ys)
  show ?case
  proof (cases "y = x")
    case True
    have "f x \<notin> f ` set ys" using Cons.prems True by simp
    then have "filter (\<lambda>z. f z = f x) ys = []"
      by (auto simp: filter_empty_conv image_iff)
    then show ?thesis using True by simp
  next
    case False
    then have "x \<in> set ys" using Cons.prems by simp
    moreover have "f y \<noteq> f x" using Cons.prems \<open>x \<in> set ys\<close> by auto
    ultimately show ?thesis using Cons by simp
  qed
qed

lemma filter_key_and:
  assumes "distinct (map f xs)" and "x \<in> set xs"
  shows "filter (\<lambda>y. f y = f x \<and> Q y) xs = (if Q x then [x] else [])"
proof -
  have "filter (\<lambda>y. f y = f x \<and> Q y) xs = filter Q (filter (\<lambda>y. f y = f x) xs)"
    by (simp add: conj_commute)
  then show ?thesis using filter_key_unique [OF assms] by simp
qed

subsection \<open>What the inherited dispatch checks\<close>

lemma dispatch_course_views:
  assumes "request_user r = User a"
  shows "dispatch ManageCourseListView r = None"
    and "dispatch CourseUpdateView r = None"
    and "dispatch CourseDeleteView r = None"
  using assms
  by (simp_all add: dispatch_def OwnerCourseEditMixin_def OwnerCourseMixin_def)

lemma dispatch_plain_views:
  shows "dispatch CourseModuleUpdateView r = None"
    and "dispatch ContentCreateUpdateView r = None"
    and "dispatch ContentDeleteView r = None"
    and "dispatch ModuleContentListView r = None"
    and "dispatch ModuleOrderView r = None"
    and "dispatch ContentOrderView r = None"
    and "dispatch CourseListView r = None"
  by (simp_all add: dispatch_def)

lemma get_queryset_owner:
  assumes "request_user r = User a"
  shows "get_queryset CourseUpdateView d r =
           Inr (filter (\<lambda>c. course_owner c = a) (Course_objects d))"
    and "get_queryset CourseDeleteView d r =
           Inr (filter (\<lambda>c. course_owner c = a) (Course_objects d))"
    and "get_queryset ManageCourseListView d r =
           Inr (filter (\<lambda>c. course_owner c = a) (Course_objects d))"
  using assms
  by (simp_all add: get_queryset_def OwnerCourseEditMixin_def OwnerCourseMixin_def)

subsection \<open>Permissions on Course update and delete\<close>

text \<open>
  C1. The claim: a Course update or delete request by an authenticated actor who lacks
  the change (respectively delete) permission fails with a forbidden error and leaves
  the Course as it is. \<^verbatim>\<open>CourseUpdateView\<close> and \<^verbatim>\<open>CourseDeleteView\<close> set
  \<^verbatim>\<open>permission_required\<close> but do not inherit from \<open>PermissionRequiredMixin\<close>, the
  only class that reads it, so the attribute has no effect. Evaluated on the sample
  store: user 1 holds neither permission, yet the update of Course 10 is saved and the
  deletion removes it, both answered with the redirect to the course list; only
  \<^verbatim>\<open>CourseCreateView\<close>, which has the mixin, answers \<open>PermissionDenied\<close>.
\<close>

theorem course_update_delete_ignore_permission:
  "has_perm user1 courses_change_course = False
   \<and> has_perm user1 courses_delete_course = False
   \<and> fst (CourseUpdateView_post accept_course example_db user1 10 example_course_form)
       = Inr (Redirect manage_course_list)
   \<and> map course_title
        (Course_objects
           (snd (CourseUpdateView_post accept_course example_db user1 10 example_course_form)))
       = [''Django'', ''Algebra'']
   \<and> fst (CourseDeleteView_post example_db user1 10) = Inr (Redirect manage_course_list)
   \<and> map course_id (Course_objects (snd (CourseDeleteView_post example_db user1 10))) = [11]
   \<and> CourseCreateView_post accept_course example_db user1 example_course_form
       = (Inl PermissionDenied, example_db)"
  by code_simp

subsection \<open>Requests without a logged-in user\<close>

text \<open>
  C3. The claim: every mutating endpoint rejects a request that carries no authenticated
  actor. Only the Course views inherit \<open>LoginRequiredMixin\<close>; the ordering views, the
  content views and the module formset view have no access mixin at all. Evaluated on
  the sample store for a request with no user logged in: both ordering views accept the
  empty mapping and answer with the saved-OK payload, the inherited dispatch of
  \<^verbatim>\<open>ContentDeleteView\<close> lets the request through to the handler (whose lookup
  then raises \<open>TypeError\<close>, a server error), while \<^verbatim>\<open>CourseDeleteView\<close>
  sends the same request to the login page.
\<close>

theorem unauthenticated_requests_are_processed:
  "ModuleOrderView_post example_db anonymous []
     = (Inr (JsonResponse [(''saved'', ''OK'')]), example_db)
   \<and> ContentOrderView_post example_db anonymous []
     = (Inr (JsonResponse [(''saved'', ''OK'')]), example_db)
   \<and> dispatch ContentDeleteView anonymous = None
   \<and> ContentDeleteView_post example_db anonymous 3 = (Inl TypeError, example_db)
   \<and> CourseDeleteView_post example_db anonymous 10 = (Inr (Redirect login), example_db)"
  by code_simp

subsection \<open>Model names outside the allow-list\<close>

text \<open>
  C4. The claim: a content create or update request whose model name is outside the
  allow-list fails with a validation error before any further processing, and a name
  in the allow-list resolves to its typed model. The second half holds. For the first,
  \<^verbatim>\<open>get_model\<close> returns \<^verbatim>\<open>None\<close> and the view goes on: evaluated on
  the sample store with the name \<^verbatim>\<open>spreadsheet\<close> on Module 7 of user 1, GET
  and POST without an id end in the \<open>AttributeError\<close> of building a form for no
  model, and POST with an id in the \<open>ValueError\<close> of looking an object up in no model.
\<close>

theorem unknown_model_name_dereferences_none:
  "get_model ''spreadsheet'' = None
   \<and> ContentCreateUpdateView_get example_db user1 7 ''spreadsheet'' None
       = Inl AttributeError
   \<and> ContentCreateUpdateView_post accept_content example_db user1 7 ''spreadsheet'' None
         example_content_form
       = (Inl AttributeError, example_db)
   \<and> ContentCreateUpdateView_post accept_content example_db user1 7 ''spreadsheet'' (Some 5)
         example_content_form
       = (Inl ValueError, example_db)
   \<and> map get_model [''text'', ''video'', ''image'', ''file'']
       = [Some Text, Some Video, Some Image, Some File]"
  by code_simp

subsection \<open>Deleting a Content row\<close>

text \<open>
  C5. The claim: the owner's content deletion deletes the typed item, then the Content
  row, and redirects to the content list of that Content's Module. Evaluated on the
  sample store for Content 3 of user 1: the Text item 5 and the Content row 3 are
  deleted, and the request then ends in the \<open>NameError\<close> of the unbound name
  \<^verbatim>\<open>module\<close> instead of the redirect.
\<close>

theorem content_delete_raises_after_deleting:
  "fst (ContentDeleteView_post example_db user1 3) = Inl NameError
   \<and> map item_id (Text_objects (snd (ContentDeleteView_post example_db user1 3))) = [6, 12]
   \<and> map content_id (Content_objects (snd (ContentDeleteView_post example_db user1 3)))
       = [4]"
  by code_simp

subsection \<open>Ordering submissions\<close>

lemma course__owner_update_module_order [simp]:
  "course__owner (update_module_order a i order d) b m = course__owner d b m"
  by (simp add: course__owner_def update_module_order_def)

lemma course__owner_module_order [simp]:
  "course__owner d a (m\<lparr>module_order := order\<rparr>) = course__owner d a m"
  by (simp add: course__owner_def)

lemma module__course__owner_update_content_order [simp]:
  "module__course__owner (update_content_order a i order d) b c = module__course__owner d b c"
  by (simp add: module__course__owner_def course__owner_def update_content_order_def)

lemma module__course__owner_content_order [simp]:
  "module__course__owner d a (c\<lparr>content_order := order\<rparr>) = module__course__owner d a c"
  by (simp add: module__course__owner_def)

lemma reorder_module_step:
  assumes "i \<notin> fst ` set rest"
  shows "reorder_module d a rest
           (if module_id m = i \<and> course__owner d a m then m\<lparr>module_order := order\<rparr> else m)
         = reorder_module d a ((i, order) # rest) m"
proof (cases "module_id m = i")
  case True
  then have "map_of rest (module_id m) = None"
    using assms by (simp add: map_of_eq_None_iff)
  then show ?thesis using True by (simp add: reorder_module_def)
next
  case False
  then show ?thesis by (simp add: reorder_module_def)
qed

lemma reorder_content_step:
  assumes "i \<notin> fst ` set rest"
  shows "reorder_content d a rest
           (if content_id c = i \<and> module__course__owner d a c
            then c\<lparr>content_order := order\<rparr> else c)
         = reorder_content d a ((i, order) # rest) c"
proof (cases "content_id c = i")
  case True
  then have "map_of rest (content_id c) = None"
    using assms by (simp add: map_of_eq_None_iff)
  then show ?thesis using True by (simp add: reorder_content_def)
next
  case False
  then show ?thesis by (simp add: reorder_content_def)
qed

lemma order_loop_modules:
  assumes "distinct (map fst js)"
  shows "order_loop update_module_order (User a) js d =
           (None, d\<lparr>Module_objects := map (reorder_module d a js) (Module_objects d)\<rparr>)"
  using assms
proof (induction js arbitrary: d)
  case Nil
  have "map (reorder_module d a []) (Module_objects d) = Module_objects d"
    by (rule map_idI) (simp add: reorder_module_def)
  then show ?case by simp
next
  case (Cons p rest)
  obtain i order where p: "p = (i, order)" by (cases p)
  let ?d = "update_module_order a i order d"
  have fresh: "i \<notin> fst ` set rest" and rest: "distinct (map fst rest)"
    using Cons.prems p by simp_all
  have same: "reorder_module ?d a rest = reorder_module d a rest"
    by (rule ext) (simp add: reorder_module_def split: option.splits)
  have "order_loop update_module_order (User a) (p # rest) d =
          (None, ?d\<lparr>Module_objects := map (reorder_module ?d a rest) (Module_objects ?d)\<rparr>)"
    using Cons.IH [OF rest, of ?d] p by simp
  also have "?d\<lparr>Module_objects := map (reorder_module ?d a rest) (Module_objects ?d)\<rparr> =
          d\<lparr>Module_objects := map (reorder_module d a (p # rest)) (Module_objects d)\<rparr>"
    unfolding same p
    by (simp add: update_module_order_def reorder_module_step [OF fresh] comp_def)
  finally show ?case .
qed

lemma order_loop_contents:
  assumes "distinct (map fst js)"
  shows "order_loop update_content_order (User a) js d =
           (None, d\<lparr>Content_objects := map (reorder_content d a js) (Content_objects d)\<rparr>)"
  using assms
proof (induction js arbitrary: d)
  case Nil
  have "map (reorder_content d a []) (Content_objects d) = Content_objects d"
    by (rule map_idI) (simp add: reorder_content_def)
  then show ?case by simp
next
  case (Cons p rest)
  obtain i order where p: "p = (i, order)" by (cases p)
  let ?d = "update_content_order a i order d"
  have fresh: "i \<notin> fst ` set rest" and rest: "distinct (map fst rest)"
    using Cons.prems p by simp_all
  have same: "reorder_content ?d a rest = reorder_content d a rest"
    by (rule ext) (simp add: reorder_content_def split: option.splits)
  have "order_loop update_content_order (User a) (p # rest) d =
          (None, ?d\<lparr>Content_objects := map (reorder_content ?d a rest) (Content_objects ?d)\<rparr>)"
    using Cons.IH [OF rest, of ?d] p by simp
  also have "?d\<lparr>Content_objects := map (reorder_content ?d a rest) (Content_objects ?d)\<rparr> =
          d\<lparr>Content_objects := map (reorder_content d a (p # rest)) (Content_objects d)\<rparr>"
    unfolding same p
    by (simp add: update_content_order_def reorder_content_step [OF fresh] comp_def)
  finally show ?case .
qed

text \<open>
  C6. An ordering submission of a logged-in actor, a mapping from ids to orders (its keys
  are distinct), containing any mix of the actor's and other ids: every row whose id is
  in the mapping and whose course is the actor's gets the mapped order, every other row
  stays as it is, nothing else in the store changes, no error is raised, and the answer
  is the fixed saved-OK payload. This holds for the Module and for the Content
  ordering view.
\<close>

theorem ordering_updates_owned_rows_only:
  assumes "request_user r = User a" and "distinct (map fst request_json)"
  shows "ModuleOrderView_post d r request_json =
           (Inr (JsonResponse [(''saved'', ''OK'')]),
            d\<lparr>Module_objects :=
                map (\<lambda>m. case map_of request_json (module_id m) of
                            None \<Rightarrow> m
                          | Some order \<Rightarrow>
                              if course__owner d a m then m\<lparr>module_order := order\<rparr> else m)
                  (Module_objects d)\<rparr>)
       \<and> ContentOrderView_post d r request_json =
           (Inr (JsonResponse [(''saved'', ''OK'')]),
            d\<lparr>Content_objects :=
                map (\<lambda>c. case map_of request_json (content_id c) of
                            None \<Rightarrow> c
                          | Some order \<Rightarrow>
                              if module__course__owner d a c
                              then c\<lparr>content_order := order\<rparr> else c)
                  (Content_objects d)\<rparr>)"
proof -
  have m: "reorder_module d a request_json =
             (\<lambda>m. case map_of request_json (module_id m) of
                     None \<Rightarrow> m
                   | Some order \<Rightarrow>
                       if course__owner d a m then m\<lparr>module_order := order\<rparr> else m)"
    by (rule ext) (simp add: reorder_module_def)
  have c: "reorder_content d a request_json =
             (\<lambda>c. case map_of request_json (content_id c) of
                     None \<Rightarrow> c
                   | Some order \<Rightarrow>
                       if module__course__owner d a c
                       then c\<lparr>content_order := order\<rparr> else c)"
    by (rule ext) (simp add: reorder_content_def)
  show ?thesis
    using order_loop_modules [OF assms(2), of a d] order_loop_contents [OF assms(2), of a d]
    unfolding m c
    by (simp add: ModuleOrderView_post_def ContentOrderView_post_def OrderView_post_def
        dispatch_plain_views assms(1))
qed

text \<open>
  On the sample store user 1 submits orders for Module 7 (its own) and Module 8 (of
  user 2): only Module 7 changes. The same ids name no Content of user 1.
\<close>

theorem ordering_updates_owned_rows_only_witness:
  "request_user user1 = User 1
   \<and> distinct (map fst [(7::nat, 5::int), (8, 9)])
   \<and> ModuleOrderView_post example_db user1 [(7, 5), (8, 9)] =
       (Inr (JsonResponse [(''saved'', ''OK'')]),
        example_db\<lparr>Module_objects :=
            map (\<lambda>m. case map_of [(7, 5), (8, 9)] (module_id m) of
                        None \<Rightarrow> m
                      | Some order \<Rightarrow>
                          if course__owner example_db 1 m
                          then m\<lparr>module_order := order\<rparr> else m)
              (Module_objects example_db)\<rparr>)
   \<and> map module_order
        (Module_objects (snd (ModuleOrderView_post example_db user1 [(7, 5), (8, 9)])))
       = [5, 0, 1]
   \<and> map content_order
        (Content_objects (snd (ContentOrderView_post example_db user1 [(7, 5), (8, 9)])))
       = [0, 0]"
proof -
  have u: "request_user user1 = User 1" by (simp add: user1_def)
  have k: "distinct (map fst [(7::nat, 5::int), (8, 9)])" by simp
  have m: "map module_order
             (Module_objects (snd (ModuleOrderView_post example_db user1 [(7, 5), (8, 9)])))
           = [5, 0, 1]"
    by code_simp
  have c: "map content_order
             (Content_objects (snd (ContentOrderView_post example_db user1 [(7, 5), (8, 9)])))
           = [0, 0]"
    by code_simp
  note t = ordering_updates_owned_rows_only [OF u k, of example_db]
  show ?thesis
    by (intro conjI u k m c t [THEN conjunct1])
qed

subsection \<open>Access by an actor who is not the owner\<close>

lemma get_object_not_owner:
  assumes "request_user r = User a"
    and "distinct (map course_id (Course_objects d))"
    and "c \<in> set (Course_objects d)" and "course_owner c \<noteq> a"
  shows "get_object CourseUpdateView d r (course_id c) = Inl Http404"
    and "get_object CourseDeleteView d r (course_id c) = Inl Http404"
proof -
  have "filter (\<lambda>x. course_id x = course_id c)
          (filter (\<lambda>x. course_owner x = a) (Course_objects d)) = []"
    using filter_key_and [OF assms(2,3), of "\<lambda>x. course_owner x = a"] assms(4)
    by (simp add: conj_commute)
  then show "get_object CourseUpdateView d r (course_id c) = Inl Http404"
    and "get_object CourseDeleteView d r (course_id c) = Inl Http404"
    by (simp_all add: get_object_def get_queryset_owner [OF assms(1)] get_object_or_404_none)
qed

lemma course_views_not_owner:
  assumes "request_user r = User a"
    and "distinct (map course_id (Course_objects d))"
    and "c \<in> set (Course_objects d)" and "course_owner c \<noteq> a"
  shows "CourseUpdateView_get d r (course_id c) = Inl Http404"
    and "CourseUpdateView_post is_valid d r (course_id c) f = (Inl Http404, d)"
    and "CourseDeleteView_get d r (course_id c) = Inl Http404"
    and "CourseDeleteView_post d r (course_id c) = (Inl Http404, d)"
  by (simp_all add: CourseUpdateView_get_def CourseUpdateView_post_def CourseDeleteView_get_def
      CourseDeleteView_post_def UpdateView_get_def UpdateView_post_def DeleteView_get_def
      DeleteView_post_def dispatch_course_views [OF assms(1)] get_object_not_owner [OF assms])

lemma course_list_not_owner:
  assumes "request_user r = User a" and "course_owner c \<noteq> a"
  shows "\<exists>cs. ManageCourseListView_get d r =
            Inr (Render ''courses/manage/course/list.html'' (CourseListContext cs))
          \<and> c \<notin> set cs"
  using assms(2)
  by (simp add: ManageCourseListView_get_def ListView_get_def
      dispatch_course_views [OF assms(1)] get_queryset_owner [OF assms(1)])

lemma formset_not_owner:
  assumes "request_user r = User a"
    and "distinct (map course_id (Course_objects d))"
    and "c \<in> set (Course_objects d)" and "course_owner c \<noteq> a"
  shows "CourseModuleUpdateView_get d r (course_id c) = Inl Http404"
    and "CourseModuleUpdateView_post clean d r (course_id c) rows = (Inl Http404, d)"
proof -
  have "CourseModuleUpdateView_dispatch d r (course_id c) = Inl Http404"
    using filter_key_and [OF assms(2,3), of "\<lambda>x. course_owner x = a"] assms(1,4)
    by (simp add: CourseModuleUpdateView_dispatch_def get_object_or_404_none)
  then show "CourseModuleUpdateView_get d r (course_id c) = Inl Http404"
    and "CourseModuleUpdateView_post clean d r (course_id c) rows = (Inl Http404, d)"
    by (simp_all add: CourseModuleUpdateView_get_def CourseModuleUpdateView_post_def)
qed

text \<open>A Module of a Course that is not the actor's does not pass the owner traversal.\<close>

lemma course__owner_not_owner:
  assumes "distinct (map course_id (Course_objects d))"
    and "c \<in> set (Course_objects d)" and "course_owner c \<noteq> a"
    and "module_course m = course_id c"
  shows "\<not> course__owner d a m"
proof
  assume "course__owner d a m"
  then obtain x where x: "x \<in> set (Course_objects d)" "course_id x = course_id c"
      "course_owner x = a"
    using assms(4) by (auto simp: course__owner_def list_ex_iff)
  have "x \<in> set (filter (\<lambda>y. course_id y = course_id c) (Course_objects d))"
    using x by simp
  then have "x = c" using filter_key_unique [OF assms(1,2)] by simp
  then show False using x assms(3) by simp
qed

lemma module_lookup_not_owner:
  assumes "distinct (map course_id (Course_objects d))"
    and "distinct (map module_id (Module_objects d))"
    and "c \<in> set (Course_objects d)" and "course_owner c \<noteq> a"
    and "m \<in> set (Module_objects d)" and "module_course m = course_id c"
  shows "get_object_or_404 (Module_objects d)
           (\<lambda>x. module_id x = module_id m \<and> course__owner d a x) = Inl Http404"
  using filter_key_and [OF assms(2,5), of "course__owner d a"]
    course__owner_not_owner [OF assms(1,3,4,6)]
  by (simp add: get_object_or_404_none)

lemma module__course__owner_not_owner:
  assumes "distinct (map course_id (Course_objects d))"
    and "distinct (map module_id (Module_objects d))"
    and "c \<in> set (Course_objects d)" and "course_owner c \<noteq> a"
    and "m \<in> set (Module_objects d)" and "module_course m = course_id c"
    and "content_module x = module_id m"
  shows "\<not> module__course__owner d a x"
proof
  assume "module__course__owner d a x"
  then obtain y where y: "y \<in> set (Module_objects d)" "module_id y = module_id m"
      "course__owner d a y"
    using assms(7) by (auto simp: module__course__owner_def list_ex_iff)
  have "y \<in> set (filter (\<lambda>z. module_id z = module_id m) (Module_objects d))"
    using y by simp
  then have "y = m" using filter_key_unique [OF assms(2,5)] by simp
  then show False using y course__owner_not_owner [OF assms(1,3,4,6)] by simp
qed

lemma content_views_not_owner:
  assumes "request_user r = User a"
    and "distinct (map course_id (Course_objects d))"
    and "distinct (map module_id (Module_objects d))"
    and "c \<in> set (Course_objects d)" and "course_owner c \<noteq> a"
    and "m \<in> set (Module_objects d)" and "module_course m = course_id c"
  shows "ModuleContentListView_get d r (module_id m) = Inl Http404"
    and "ContentCreateUpdateView_get d r (module_id m) model_name ident = Inl Http404"
    and "ContentCreateUpdateView_post is_valid d r (module_id m) model_name ident f
           = (Inl Http404, d)"
proof -
  note look = module_lookup_not_owner [OF assms(2-7)]
  have "ContentCreateUpdateView_dispatch d r (module_id m) model_name ident = Inl Http404"
    by (simp add: ContentCreateUpdateView_dispatch_def assms(1) look)
  then show "ContentCreateUpdateView_get d r (module_id m) model_name ident = Inl Http404"
    and "ContentCreateUpdateView_post is_valid d r (module_id m) model_name ident f
           = (Inl Http404, d)"
    by (simp_all add: ContentCreateUpdateView_get_def ContentCreateUpdateView_post_def)
  show "ModuleContentListView_get d r (module_id m) = Inl Http404"
    by (simp add: ModuleContentListView_get_def dispatch_plain_views assms(1) look)
qed

lemma content_delete_not_owner:
  assumes "request_user r = User a"
    and "distinct (map course_id (Course_objects d))"
    and "distinct (map module_id (Module_objects d))"
    and "distinct (map content_id (Content_objects d))"
    and "c \<in> set (Course_objects d)" and "course_owner c \<noteq> a"
    and "m \<in> set (Module_objects d)" and "module_course m = course_id c"
    and "x \<in> set (Content_objects d)" and "content_module x = module_id m"
  shows "ContentDeleteView_post d r (content_id x) = (Inl Http404, d)"
  using filter_key_and [OF assms(4,9), of "module__course__owner d a"]
    module__course__owner_not_owner [OF assms(2,3,5,6,7,8,10)]
  by (simp add: ContentDeleteView_post_def dispatch_plain_views assms(1) get_object_or_404_none)

text \<open>
  C2. For a Course \<open>c\<close> of the store and a logged-in actor \<open>a\<close> who is not its owner
  (primary keys are unique): the actor's course list does not contain \<open>c\<close>; update and
  delete of \<open>c\<close> by its id, GET and POST, and the module formset of \<open>c\<close> fail with
  \<open>Http404\<close> and leave the store as it is; and so do the content list, the content form
  and the content deletion for every Module and Content of \<open>c\<close>. The failure is never
  \<open>PermissionDenied\<close>.
\<close>

theorem non_owner_gets_not_found:
  assumes "request_user r = User a"
    and "distinct (map course_id (Course_objects d))"
    and "distinct (map module_id (Module_objects d))"
    and "distinct (map content_id (Content_objects d))"
    and "c \<in> set (Course_objects d)" and "course_owner c \<noteq> a"
  shows "(\<exists>cs. ManageCourseListView_get d r =
              Inr (Render ''courses/manage/course/list.html'' (CourseListContext cs))
            \<and> c \<notin> set cs)
       \<and> CourseUpdateView_get d r (course_id c) = Inl Http404
       \<and> CourseUpdateView_post form_is_valid d r (course_id c) f = (Inl Http404, d)
       \<and> CourseDeleteView_get d r (course_id c) = Inl Http404
       \<and> CourseDeleteView_post d r (course_id c) = (Inl Http404, d)
       \<and> CourseModuleUpdateView_get d r (course_id c) = Inl Http404
       \<and> CourseModuleUpdateView_post clean d r (course_id c) rows = (Inl Http404, d)
       \<and> (m \<in> set (Module_objects d) \<and> module_course m = course_id c \<longrightarrow>
            ModuleContentListView_get d r (module_id m) = Inl Http404
          \<and> ContentCreateUpdateView_get d r (module_id m) model_name ident = Inl Http404
          \<and> ContentCreateUpdateView_post content_is_valid d r (module_id m) model_name ident g
              = (Inl Http404, d)
          \<and> (x \<in> set (Content_objects d) \<and> content_module x = module_id m \<longrightarrow>
               ContentDeleteView_post d r (content_id x) = (Inl Http404, d)))"
proof (intro conjI impI)
  show "\<exists>cs. ManageCourseListView_get d r =
              Inr (Render ''courses/manage/course/list.html'' (CourseListContext cs))
            \<and> c \<notin> set cs"
    by (rule course_list_not_owner [OF assms(1,6)])
  show "CourseUpdateView_get d r (course_id c) = Inl Http404"
    and "CourseUpdateView_post form_is_valid d r (course_id c) f = (Inl Http404, d)"
    and "CourseDeleteView_get d r (course_id c) = Inl Http404"
    and "CourseDeleteView_post d r (course_id c) = (Inl Http404, d)"
    by (rule course_views_not_owner [OF assms(1,2,5,6)])+
  show "CourseModuleUpdateView_get d r (course_id c) = Inl Http404"
    and "CourseModuleUpdateView_post clean d r (course_id c) rows = (Inl Http404, d)"
    by (rule formset_not_owner [OF assms(1,2,5,6)])+
next
  assume m: "m \<in> set (Module_objects d) \<and> module_course m = course_id c"
  show "ModuleContentListView_get d r (module_id m) = Inl Http404"
    and "ContentCreateUpdateView_get d r (module_id m) model_name ident = Inl Http404"
    and "ContentCreateUpdateView_post content_is_valid d r (module_id m) model_name ident g
              = (Inl Http404, d)"
    using m by (simp_all add: content_views_not_owner [OF assms(1,2,3,5,6)])
next
  assume m: "m \<in> set (Module_objects d) \<and> module_course m = course_id c"
    and x: "x \<in> set (Content_objects d) \<and> content_module x = module_id m"
  show "ContentDeleteView_post d r (content_id x) = (Inl Http404, d)"
    using m x content_delete_not_owner [OF assms(1,2,3,4,5,6), of m x] by blast
qed

text \<open>
  On the sample store: user 2 against Course 10 of user 1, its Module 7 and its
  Content 3.
\<close>

theorem non_owner_gets_not_found_witness:
  "ManageCourseListView_get example_db user2 =
     Inr (Render ''courses/manage/course/list.html''
            (CourseListContext
               [\<lparr>course_id = 11, course_owner = 2, course_subject = 2,
                 course_title = ''Algebra'', course_slug = ''algebra'',
                 course_overview = ''Groups''\<rparr>]))
   \<and> CourseUpdateView_get example_db user2 10 = Inl Http404
   \<and> CourseUpdateView_post accept_course example_db user2 10 example_course_form
       = (Inl Http404, example_db)
   \<and> CourseDeleteView_get example_db user2 10 = Inl Http404
   \<and> CourseDeleteView_post example_db user2 10 = (Inl Http404, example_db)
   \<and> CourseModuleUpdateView_get example_db user2 10 = Inl Http404
   \<and> CourseModuleUpdateView_post (\<lambda>w. True) example_db user2 10 [DeleteRow 7]
       = (Inl Http404, example_db)
   \<and> ModuleContentListView_get example_db user2 7 = Inl Http404
   \<and> ContentCreateUpdateView_get example_db user2 7 ''text'' (Some 6) = Inl Http404
   \<and> ContentCreateUpdateView_post accept_content example_db user2 7 ''text'' (Some 6)
         example_content_form
       = (Inl Http404, example_db)
   \<and> ContentDeleteView_post example_db user2 3 = (Inl Http404, example_db)"
proof -
  let ?c = "\<lparr>course_id = 10, course_owner = 1, course_subject = 1,
             course_title = ''Django Basics'', course_slug = ''django-basics'',
             course_overview = ''Views''\<rparr>"
  let ?m = "\<lparr>module_id = 7, module_course = 10, module_title = ''Intro'',
             module_description = ''First'', module_order = 0\<rparr>"
  let ?x = "\<lparr>content_id = 3, content_module = 7, content_type = Text, object_id = 5,
             content_order = 0\<rparr>"
  have u: "request_user user2 = User 2" by (simp add: user2_def)
  have k: "distinct (map course_id (Course_objects example_db))"
    "distinct (map module_id (Module_objects example_db))"
    "distinct (map content_id (Content_objects example_db))"
    by (simp_all add: example_db_def)
  have c: "?c \<in> set (Course_objects example_db)" "course_owner ?c \<noteq> 2"
    by (simp_all add: example_db_def)
  have m: "?m \<in> set (Module_objects example_db) \<and> module_course ?m = course_id ?c"
    by (simp add: example_db_def)
  have x: "?x \<in> set (Content_objects example_db) \<and> content_module ?x = module_id ?m"
    by (simp add: example_db_def)
  have l: "ManageCourseListView_get example_db user2 =
     Inr (Render ''courses/manage/course/list.html''
            (CourseListContext
               [\<lparr>course_id = 11, course_owner = 2, course_subject = 2,
                 course_title = ''Algebra'', course_slug = ''algebra'',
                 course_overview = ''Groups''\<rparr>]))"
    by code_simp
  note t = non_owner_gets_not_found [OF u k c, of accept_course example_course_form
      "\<lambda>w. True" "[DeleteRow 7]" ?m "''text''" "Some 6" accept_content example_content_form ?x]
  from t m x l show ?thesis by simp
qed

subsection \<open>The module formset\<close>

lemma formset_dispatch_owner:
  assumes "request_user r = User a"
    and "distinct (map course_id (Course_objects d))"
    and "c \<in> set (Course_objects d)" and "course_owner c = a"
  shows "CourseModuleUpdateView_dispatch d r (course_id c) = Inr c"
  using filter_key_and [OF assms(2,3), of "\<lambda>x. course_owner x = a"] assms(1,4)
  by (simp add: CourseModuleUpdateView_dispatch_def get_object_or_404_one)

text \<open>
  C7. A module formset POST by the logged-in owner of the Course (primary keys are
  unique): when every row is valid, every row is saved, in one pass over the set, and
  the answer is the redirect to the course list; when some row is invalid, nothing is
  saved, the store is the one before the request, and the formset template is rendered
  again with the submitted rows.
\<close>

theorem formset_all_or_nothing:
  assumes "request_user r = User a"
    and "distinct (map course_id (Course_objects d))"
    and "c \<in> set (Course_objects d)" and "course_owner c = a"
  shows "((\<forall>w \<in> set rows. row_is_valid clean d c w) \<longrightarrow>
            CourseModuleUpdateView_post clean d r (course_id c) rows
              = (Inr (Redirect manage_course_list), fold (save_row c) rows d))
       \<and> ((\<exists>w \<in> set rows. \<not> row_is_valid clean d c w) \<longrightarrow>
            CourseModuleUpdateView_post clean d r (course_id c) rows
              = (Inr (Render ''courses/manage/module/formset.html'' (FormsetContext c rows)),
                 d))"
  by (simp add: CourseModuleUpdateView_post_def formset_dispatch_owner [OF assms]
      dispatch_plain_views formset_is_valid_def formset_save_def list_all_iff)

text \<open>
  On the sample store for Course 10 of user 1: an addition, an edit and a deletion that
  are all valid are all saved; an edit together with an addition that has no title
  saves neither.
\<close>

theorem formset_all_or_nothing_witness:
  "fst (CourseModuleUpdateView_post example_clean example_db user1 10
          [AddRow ''Models'' ''Third'', EditRow 7 ''Start'' ''First'', DeleteRow 9])
     = Inr (Redirect manage_course_list)
   \<and> map (\<lambda>m. (module_id m, module_title m))
        (Module_objects
           (snd (CourseModuleUpdateView_post example_clean example_db user1 10
                   [AddRow ''Models'' ''Third'', EditRow 7 ''Start'' ''First'', DeleteRow 9])))
     = [(7, ''Start''), (8, ''Sets''), (10, ''Models'')]
   \<and> CourseModuleUpdateView_post example_clean example_db user1 10
        [EditRow 7 ''Start'' ''First'', AddRow [] ''Third'']
     = (Inr (Render ''courses/manage/module/formset.html''
               (FormsetContext
                  \<lparr>course_id = 10, course_owner = 1, course_subject = 1,
                    course_title = ''Django Basics'', course_slug = ''django-basics'',
                    course_overview = ''Views''\<rparr>
                  [EditRow 7 ''Start'' ''First'', AddRow [] ''Third''])),
        example_db)"
proof -
  let ?c = "\<lparr>course_id = 10, course_owner = 1, course_subject = 1,
             course_title = ''Django Basics'', course_slug = ''django-basics'',
             course_overview = ''Views''\<rparr>"
  let ?good = "[AddRow ''Models'' ''Third'', EditRow 7 ''Start'' ''First'', DeleteRow 9]"
  let ?bad = "[EditRow 7 ''Start'' ''First'', AddRow [] ''Third'']"
  have u: "request_user user1 = User 1" by (simp add: user1_def)
  have k: "distinct (map course_id (Course_objects example_db))"
    by (simp add: example_db_def)
  have c: "?c \<in> set (Course_objects example_db)" "course_owner ?c = 1"
    by (simp_all add: example_db_def)
  have good: "\<forall>w \<in> set ?good. row_is_valid example_clean example_db ?c w"
    by (simp add: example_clean_def row_names_module_def example_db_def)
  have bad: "\<exists>w \<in> set ?bad. \<not> row_is_valid example_clean example_db ?c w"
    by (simp add: example_clean_def)
  have saved: "map (\<lambda>m. (module_id m, module_title m))
                 (Module_objects (fold (save_row ?c) ?good example_db))
               = [(7, ''Start''), (8, ''Sets''), (10, ''Models'')]"
    by code_simp
  note t1 = formset_all_or_nothing [OF u k c, of ?good example_clean, THEN conjunct1, THEN mp, OF good]
  note t2 = formset_all_or_nothing [OF u k c, of ?bad example_clean, THEN conjunct2, THEN mp, OF bad]
  show ?thesis using t1 t2 saved by simp
qed

subsection \<open>The public catalog\<close>

text \<open>
  C9. The public catalog: every Subject comes with the number of its Courses and every
  Course with the number of its Modules. With a (non-empty) subject slug that no
  Subject has the answer is \<open>Http404\<close>; with a slug that exactly one Subject has, the
  Courses are those of that Subject, each still with its count, while the Subjects
  are all of them with their counts. The answer does not depend on who asks.
\<close>

theorem catalog_counts_and_filter:
  "CourseListView_get d r None =
     Inr (Render ''courses/course/list.html''
            (CatalogContext
               (map (\<lambda>s. (s, length (filter (\<lambda>c. course_subject c = subject_id s)
                                         (Course_objects d))))
                  (Subject_objects d))
               None
               (map (\<lambda>c. (c, length (filter (\<lambda>m. module_course m = course_id c)
                                         (Module_objects d))))
                  (Course_objects d))))
   \<and> (slug \<noteq> [] \<and> filter (\<lambda>s. subject_slug s = slug) (Subject_objects d) = [] \<longrightarrow>
        CourseListView_get d r (Some slug) = Inl Http404)
   \<and> (slug \<noteq> [] \<and> filter (\<lambda>s. subject_slug s = slug) (Subject_objects d) = [s] \<longrightarrow>
        CourseListView_get d r (Some slug) =
          Inr (Render ''courses/course/list.html''
                 (CatalogContext
                    (map (\<lambda>s. (s, length (filter (\<lambda>c. course_subject c = subject_id s)
                                              (Course_objects d))))
                       (Subject_objects d))
                    (Some s)
                    (map (\<lambda>c. (c, length (filter (\<lambda>m. module_course m = course_id c)
                                              (Module_objects d))))
                       (filter (\<lambda>c. course_subject c = subject_id s) (Course_objects d))))))
   \<and> CourseListView_get d r subject = CourseListView_get d r' subject"
proof (intro conjI impI)
  show "CourseListView_get d r None =
     Inr (Render ''courses/course/list.html''
            (CatalogContext
               (map (\<lambda>s. (s, length (filter (\<lambda>c. course_subject c = subject_id s)
                                         (Course_objects d))))
                  (Subject_objects d))
               None
               (map (\<lambda>c. (c, length (filter (\<lambda>m. module_course m = course_id c)
                                         (Module_objects d))))
                  (Course_objects d))))"
    by (simp add: CourseListView_get_def dispatch_plain_views total_courses_def
        total_modules_def)
next
  assume "slug \<noteq> [] \<and> filter (\<lambda>s. subject_slug s = slug) (Subject_objects d) = []"
  then show "CourseListView_get d r (Some slug) = Inl Http404"
    by (simp add: CourseListView_get_def dispatch_plain_views get_object_or_404_none)
next
  assume "slug \<noteq> [] \<and> filter (\<lambda>s. subject_slug s = slug) (Subject_objects d) = [s]"
  then show "CourseListView_get d r (Some slug) =
          Inr (Render ''courses/course/list.html''
                 (CatalogContext
                    (map (\<lambda>s. (s, length (filter (\<lambda>c. course_subject c = subject_id s)
                                              (Course_objects d))))
                       (Subject_objects d))
                    (Some s)
                    (map (\<lambda>c. (c, length (filter (\<lambda>m. module_course m = course_id c)
                                              (Module_objects d))))
                       (filter (\<lambda>c. course_subject c = subject_id s) (Course_objects d)))))"
    by (simp add: CourseListView_get_def dispatch_plain_views get_object_or_404_one
        total_courses_def total_modules_def filter_map comp_def)
next
  show "CourseListView_get d r subject = CourseListView_get d r' subject"
    by (simp add: CourseListView_get_def dispatch_plain_views)
qed

text \<open>On the sample store, asked by nobody logged in, for the slugs python and rust.\<close>

theorem catalog_counts_and_filter_witness:
  "CourseListView_get example_db anonymous (Some ''python'') =
     Inr (Render ''courses/course/list.html''
            (CatalogContext
               [(\<lparr>subject_id = 1, subject_title = ''Programming'', subject_slug = ''python''\<rparr>,
                 1),
                (\<lparr>subject_id = 2, subject_title = ''Mathematics'', subject_slug = ''maths''\<rparr>,
                 1)]
               (Some \<lparr>subject_id = 1, subject_title = ''Programming'',
                      subject_slug = ''python''\<rparr>)
               [(\<lparr>course_id = 10, course_owner = 1, course_subject = 1,
                  course_title = ''Django Basics'', course_slug = ''django-basics'',
                  course_overview = ''Views''\<rparr>, 2)]))
   \<and> CourseListView_get example_db anonymous (Some ''rust'') = Inl Http404"
proof -
  let ?s = "\<lparr>subject_id = 1, subject_title = ''Programming'', subject_slug = ''python''\<rparr>"
  have found: "''python'' \<noteq> []
      \<and> filter (\<lambda>s. subject_slug s = ''python'') (Subject_objects example_db) = [?s]"
    by (simp add: example_db_def)
  have missing: "''rust'' \<noteq> []
      \<and> filter (\<lambda>s. subject_slug s = ''rust'') (Subject_objects example_db) = []"
    by (simp add: example_db_def)
  note t = catalog_counts_and_filter [of example_db anonymous]
  note t1 = t [of "''python''" ?s, THEN conjunct2, THEN conjunct2, THEN conjunct1, THEN mp, OF found]
  note t2 = t [of "''rust''", THEN conjunct2, THEN conjunct1, THEN mp, OF missing]
  have "CourseListView_get example_db anonymous (Some ''python'') =
     Inr (Render ''courses/course/list.html''
            (CatalogContext
               [(\<lparr>subject_id = 1, subject_title = ''Programming'', subject_slug = ''python''\<rparr>,
                 1),
                (\<lparr>subject_id = 2, subject_title = ''Mathematics'', subject_slug = ''maths''\<rparr>,
                 1)]
               (Some ?s)
               [(\<lparr>course_id = 10, course_owner = 1, course_subject = 1,
                  course_title = ''Django Basics'', course_slug = ''django-basics'',
                  course_overview = ''Views''\<rparr>, 2)]))"
    using t1 by (simp add: example_db_def)
  then show ?thesis using t2 by (intro conjI)
qed

subsection \<open>Saving typed content\<close>

lemma objects_of_set_objects [simp]: "objects_of k (set_objects k xs d) = xs"
  by (cases k) simp_all

lemma Content_objects_set_objects [simp]:
  "Content_objects (set_objects k xs d) = Content_objects d"
  by (cases k) simp_all

lemma Module_objects_set_objects [simp]:
  "Module_objects (set_objects k xs d) = Module_objects d"
  by (cases k) simp_all

lemma Course_objects_set_objects [simp]:
  "Course_objects (set_objects k xs d) = Course_objects d"
  by (cases k) simp_all

lemma objects_of_create_content [simp]:
  "objects_of k (create_content m j x d) = objects_of k d"
  by (cases k) (simp_all add: create_content_def)

lemma objects_of_Content_objects_update [simp]:
  "objects_of k (d\<lparr>Content_objects := cs\<rparr>) = objects_of k d"
  by (cases k) simp_all

lemma set_objects_Content_objects_update:
  "set_objects k xs (d\<lparr>Content_objects := cs\<rparr>) = (set_objects k xs d)\<lparr>Content_objects := cs\<rparr>"
  by (cases k) simp_all

lemma content_dispatch_create:
  assumes "ContentCreateUpdateView_dispatch d r mid model_name None = Inr (m, model, obj)"
  shows "obj = None \<and> model = get_model model_name \<and> module_id m = mid"
  using assms
  by (auto simp: ContentCreateUpdateView_dispatch_def split: sum.splits
      dest!: get_object_or_404_Inr filter_singleton_holds)

lemma content_dispatch_update:
  assumes "ContentCreateUpdateView_dispatch d r mid model_name (Some i) = Inr (m, model, obj)"
    and "request_user r = User a"
  shows "\<exists>k old. model = Some k \<and> obj = Some old \<and> item_id old = i \<and> item_owner old = a
           \<and> old \<in> set (objects_of k d) \<and> module_id m = mid"
  using assms
  by (auto simp: ContentCreateUpdateView_dispatch_def split: sum.splits option.splits
      dest!: get_object_or_404_Inr filter_singleton_holds) metis

text \<open>
  C8. A content POST of the logged-in actor \<open>a\<close> that passes the dispatch (the Module
  \<open>m\<close>, the model \<open>k\<close> and, with an id, the existing item) with a valid form is
  answered with the redirect to the content list of the Module. Without an id, one typed
  item is added, owned by \<open>a\<close>, and one Content row is added that links it to the
  Module. With an id, the Content rows are the ones before the request and the item
  with that id is rewritten, owned by \<open>a\<close>.
\<close>

theorem content_post_owner_and_content:
  assumes "request_user r = User a"
    and "ContentCreateUpdateView_dispatch d r mid model_name ident = Inr (m, Some k, obj)"
    and "is_valid k f"
  shows "fst (ContentCreateUpdateView_post is_valid d r mid model_name ident f)
           = Inr (Redirect (module_content_list mid))
       \<and> module_id m = mid
       \<and> (ident = None \<longrightarrow>
            (\<exists>new cnt.
               objects_of k (snd (ContentCreateUpdateView_post is_valid d r mid model_name ident f))
                 = objects_of k d @ [new]
             \<and> item_owner new = a
             \<and> item_title new = field_title f \<and> item_payload new = field_payload f
             \<and> Content_objects
                 (snd (ContentCreateUpdateView_post is_valid d r mid model_name ident f))
                 = Content_objects d @ [cnt]
             \<and> content_module cnt = mid \<and> content_type cnt = k
             \<and> object_id cnt = item_id new))
       \<and> (ident \<noteq> None \<longrightarrow>
            Content_objects
              (snd (ContentCreateUpdateView_post is_valid d r mid model_name ident f))
              = Content_objects d
          \<and> (\<exists>old new.
               obj = Some old \<and> Some (item_id old) = ident
             \<and> new = old\<lparr>item_owner := a, item_title := field_title f,
                            item_payload := field_payload f\<rparr>
             \<and> objects_of k
                 (snd (ContentCreateUpdateView_post is_valid d r mid model_name ident f))
                 = map (\<lambda>x. if item_id x = item_id old then new else x) (objects_of k d)
             \<and> new \<in> set (objects_of k
                 (snd (ContentCreateUpdateView_post is_valid d r mid model_name ident f)))))"
proof (cases ident)
  case None
  have o: "obj = None" and mid: "module_id m = mid"
    using content_dispatch_create assms(2) None by blast+
  show ?thesis
    using None assms(1,3) o mid
    by (simp add: ContentCreateUpdateView_post_def assms(2) [unfolded None]
        dispatch_plain_views get_form_def save_item_def Let_def create_content_def)
next
  case (Some i)
  obtain j old where o: "Some k = Some j" "obj = Some old" "item_id old = i"
      "item_owner old = a" "old \<in> set (objects_of j d)" "module_id m = mid"
    using content_dispatch_update [OF assms(2) [unfolded Some] assms(1)] by blast
  then have mem: "old \<in> set (objects_of k d)" by simp
  show ?thesis
    using Some assms(1,3) o(2,3,6) mem
    by (simp add: ContentCreateUpdateView_post_def assms(2) [unfolded Some]
        dispatch_plain_views get_form_def save_item_def Let_def image_iff) force
qed

text \<open>On the sample store: user 1 creates a Text in Module 7, and edits the Text 5.\<close>

theorem content_post_owner_and_content_witness:
  "fst (ContentCreateUpdateView_post accept_content example_db user1 7 ''text'' None
          example_content_form)
     = Inr (Redirect (module_content_list 7))
   \<and> map (\<lambda>x. (item_id x, item_owner x))
        (Text_objects
           (snd (ContentCreateUpdateView_post accept_content example_db user1 7 ''text'' None
                   example_content_form)))
     = [(5, 1), (6, 2), (12, 1), (13, 1)]
   \<and> map (\<lambda>x. (content_id x, content_module x, object_id x))
        (Content_objects
           (snd (ContentCreateUpdateView_post accept_content example_db user1 7 ''text'' None
                   example_content_form)))
     = [(3, 7, 5), (4, 8, 6), (5, 7, 13)]
   \<and> fst (ContentCreateUpdateView_post accept_content example_db user1 7 ''text'' (Some 5)
            example_content_form)
     = Inr (Redirect (module_content_list 7))
   \<and> map (\<lambda>x. (item_id x, item_owner x, item_title x))
        (Text_objects
           (snd (ContentCreateUpdateView_post accept_content example_db user1 7 ''text'' (Some 5)
                   example_content_form)))
     = [(5, 1, ''Title''), (6, 2, ''Axioms''), (12, 1, ''Draft'')]
   \<and> Content_objects
        (snd (ContentCreateUpdateView_post accept_content example_db user1 7 ''text'' (Some 5)
                example_content_form))
     = Content_objects example_db"
proof -
  let ?m = "\<lparr>module_id = 7, module_course = 10, module_title = ''Intro'',
             module_description = ''First'', module_order = 0\<rparr>"
  let ?old = "\<lparr>item_id = 5, item_owner = 1, item_title = ''Hello'',
               item_payload = ''World''\<rparr>"
  have u: "request_user user1 = User 1" by (simp add: user1_def)
  have v: "accept_content Text example_content_form" by (simp add: accept_content_def)
  have c: "ContentCreateUpdateView_dispatch example_db user1 7 ''text'' None
             = Inr (?m, Some Text, None)"
    by code_simp
  have e: "ContentCreateUpdateView_dispatch example_db user1 7 ''text'' (Some 5)
             = Inr (?m, Some Text, Some ?old)"
    by code_simp
  note create = content_post_owner_and_content
      [where is_valid = accept_content and f = example_content_form, OF u c v]
  note update = content_post_owner_and_content
      [where is_valid = accept_content and f = example_content_form, OF u e v]
  have items: "map (\<lambda>x. (item_id x, item_owner x))
        (Text_objects
           (snd (ContentCreateUpdateView_post accept_content example_db user1 7 ''text'' None
                   example_content_form)))
     = [(5, 1), (6, 2), (12, 1), (13, 1)]"
    by code_simp
  have contents: "map (\<lambda>x. (content_id x, content_module x, object_id x))
        (Content_objects
           (snd (ContentCreateUpdateView_post accept_content example_db user1 7 ''text'' None
                   example_content_form)))
     = [(3, 7, 5), (4, 8, 6), (5, 7, 13)]"
    by code_simp
  have edited: "map (\<lambda>x. (item_id x, item_owner x, item_title x))
        (Text_objects
           (snd (ContentCreateUpdateView_post accept_content example_db user1 7 ''text'' (Some 5)
                   example_content_form)))
     = [(5, 1, ''Title''), (6, 2, ''Axioms''), (12, 1, ''Draft'')]"
    by code_simp
  have same: "Content_objects
        (snd (ContentCreateUpdateView_post accept_content example_db user1 7 ''text'' (Some 5)
                example_content_form))
     = Content_objects example_db"
    using update by simp
  show ?thesis
    by (intro conjI create [THEN conjunct1] update [THEN conjunct1] items contents edited same)
qed

subsection \<open>The update path does not look at the Content rows\<close>

lemma course__owner_Content_objects_update [simp]:
  "course__owner (d\<lparr>Content_objects := cs\<rparr>) a m = course__owner d a m"
  by (simp add: course__owner_def)

text \<open>
  C10. On the update path the typed item is found by its id and its owner alone. Let
  the actor \<open>a\<close> own the Course of the Module in the URL and own the item \<open>i\<close> of the
  model in the URL. Then, whatever the Content rows \<open>cs\<close> of the store are (the item
  attached to this Module, to another one, or to none), a valid POST rewrites the item
  and redirects to the content list of the Module in the URL.
\<close>

theorem content_update_ignores_attachment:
  assumes "request_user r = User a"
    and "get_object_or_404 (Module_objects d)
           (\<lambda>m. module_id m = mid \<and> course__owner d a m) = Inr m"
    and "get_model model_name = Some k"
    and "get_object_or_404 (objects_of k d) (\<lambda>x. item_id x = i \<and> item_owner x = a) = Inr old"
    and "is_valid k f"
  shows "ContentCreateUpdateView_post is_valid (d\<lparr>Content_objects := cs\<rparr>) r mid model_name
           (Some i) f
         = (Inr (Redirect (module_content_list mid)),
            (set_objects k
               (map (\<lambda>x. if item_id x = i
                          then old\<lparr>item_owner := a, item_title := field_title f,
                                   item_payload := field_payload f\<rparr>
                          else x)
                  (objects_of k d)) d)\<lparr>Content_objects := cs\<rparr>)"
proof -
  have m: "module_id m = mid"
    using filter_singleton_holds [OF get_object_or_404_Inr [OF assms(2)]] by simp
  have o: "item_id old = i"
    using filter_singleton_holds [OF get_object_or_404_Inr [OF assms(4)]] by simp
  have "ContentCreateUpdateView_dispatch (d\<lparr>Content_objects := cs\<rparr>) r mid model_name (Some i)
          = Inr (m, Some k, Some old)"
    by (simp add: ContentCreateUpdateView_dispatch_def assms(1,2,3,4))
  then show ?thesis
    by (simp add: ContentCreateUpdateView_post_def dispatch_plain_views get_form_def assms(1,5)
        save_item_def Let_def m o set_objects_Content_objects_update)
qed

text \<open>
  On the sample store user 1 edits, through the URL of Module 9, the Text 5 (attached
  to Module 7 only) and the Text 12 (attached to no Module).
\<close>

theorem content_update_ignores_attachment_witness:
  "map (\<lambda>x. (content_module x, object_id x)) (Content_objects example_db) = [(7, 5), (8, 6)]
   \<and> ContentCreateUpdateView_post accept_content example_db user1 9 ''text'' (Some 5)
        example_content_form
     = (Inr (Redirect (module_content_list 9)),
        example_db\<lparr>Text_objects :=
          [\<lparr>item_id = 5, item_owner = 1, item_title = ''Title'', item_payload = ''Body''\<rparr>,
           \<lparr>item_id = 6, item_owner = 2, item_title = ''Axioms'', item_payload = ''ZF''\<rparr>,
           \<lparr>item_id = 12, item_owner = 1, item_title = ''Draft'',
             item_payload = ''Notes''\<rparr>]\<rparr>)
   \<and> fst (ContentCreateUpdateView_post accept_content example_db user1 9 ''text'' (Some 12)
            example_content_form)
     = Inr (Redirect (module_content_list 9))"
proof -
  let ?m = "\<lparr>module_id = 9, module_course = 10, module_title = ''Forms'',
             module_description = ''Second'', module_order = 1\<rparr>"
  let ?old = "\<lparr>item_id = 5, item_owner = 1, item_title = ''Hello'',
               item_payload = ''World''\<rparr>"
  let ?draft = "\<lparr>item_id = 12, item_owner = 1, item_title = ''Draft'',
               item_payload = ''Notes''\<rparr>"
  have u: "request_user user1 = User 1" by (simp add: user1_def)
  have v: "accept_content Text example_content_form" by (simp add: accept_content_def)
  have m: "get_object_or_404 (Module_objects example_db)
             (\<lambda>m. module_id m = 9 \<and> course__owner example_db 1 m) = Inr ?m"
    by code_simp
  have k: "get_model ''text'' = Some Text" by code_simp
  have o: "get_object_or_404 (objects_of Text example_db)
             (\<lambda>x. item_id x = 5 \<and> item_owner x = 1) = Inr ?old"
    by code_simp
  have p: "get_object_or_404 (objects_of Text example_db)
             (\<lambda>x. item_id x = 12 \<and> item_owner x = 1) = Inr ?draft"
    by code_simp
  have a: "map (\<lambda>x. (content_module x, object_id x)) (Content_objects example_db)
             = [(7, 5), (8, 6)]"
    by code_simp
  note t1 = content_update_ignores_attachment
      [where is_valid = accept_content and f = example_content_form
         and cs = "Content_objects example_db", OF u m k o v]
  note t2 = content_update_ignores_attachment
      [where is_valid = accept_content and f = example_content_form
         and cs = "Content_objects example_db", OF u m k p v]
  have b: "ContentCreateUpdateView_post accept_content example_db user1 9 ''text'' (Some 5)
        example_content_form
     = (Inr (Redirect (module_content_list 9)),
        example_db\<lparr>Text_objects :=
          [\<lparr>item_id = 5, item_owner = 1, item_title = ''Title'', item_payload = ''Body''\<rparr>,
           \<lparr>item_id = 6, item_owner = 2, item_title = ''Axioms'', item_payload = ''ZF''\<rparr>,
           \<lparr>item_id = 12, item_owner = 1, item_title = ''Draft'',
             item_payload = ''Notes''\<rparr>]\<rparr>)"
    using t1 by (simp add: example_db_def example_content_form_def)
  have c: "fst (ContentCreateUpdateView_post accept_content example_db user1 9 ''text'' (Some 12)
            example_content_form)
     = Inr (Redirect (module_content_list 9))"
    using t2 by simp
  show ?thesis by (intro conjI a b c)
qed

end
